theory Spec2Isabelle
  imports Main "HOL-Library.Sublist"
begin

section \<open>The compile pipeline of \<^verbatim>\<open>src/module/_compile.js\<close>\<close>

subsection \<open>Data model\<close>

text \<open>
  The three dialect constants of \<^verbatim>\<open>constant/source-type.js\<close>. The file itself is not part
  of the sources; the code only compares the constants with \<^verbatim>\<open>===\<close>, so three distinct
  constructors are all that is used.
\<close>

datatype sourceType = SCRIPT | MODULE | UNAMBIGUOUS

text \<open>
  Modelled from the spec: the \<^verbatim>\<open>ENTRY.STATE\<close> enumeration (\<^verbatim>\<open>constant/entry.js\<close> is missing).
  The code names \<^verbatim>\<open>PARSING_STARTED\<close> and \<^verbatim>\<open>EXECUTION_STARTED\<close>; the spec adds \<^verbatim>\<open>INITIAL\<close>
  and further states, collected in \<open>LATER_STATE\<close>.
\<close>

datatype entry_state = INITIAL | PARSING_STARTED | EXECUTION_STARTED | LATER_STATE nat

text \<open>
  A cached compilation \<^verbatim>\<open>{ code, sourceType, changed, topLevelReturn, exportSpecifiers,
  warnings }\<close>. \<open>exportSpecifiers\<close> is an object (its keys with their values) or absent;
  a warning is its \<^verbatim>\<open>code\<close> with its \<^verbatim>\<open>args\<close>.
\<close>

record cached =
  code :: string
  sourceType :: sourceType
  changed :: bool
  topLevelReturn :: bool
  exportSpecifiers :: "(string \<times> nat) list option"
  warnings :: "(string \<times> string list) list"

text \<open>
  What \<^verbatim>\<open>cache.compile[cacheName]\<close> holds: the sentinel \<^verbatim>\<open>true\<close> (the record is on disk and
  not loaded yet) or a record. An absent key is \<open>None\<close> of the map.
\<close>

datatype slot = Pending | Compiled cached

text \<open>
  The package options read by this file. \<open>sourceMap\<close> is \<^verbatim>\<open>undefined\<close>, \<^verbatim>\<open>true\<close> or \<^verbatim>\<open>false\<close>;
  \<open>cjs_vars\<close> is \<^verbatim>\<open>options.cjs.vars\<close>; \<open>opt_warnings\<close> is \<^verbatim>\<open>options.warnings\<close>.
\<close>

record options =
  mode :: string
  debug :: bool
  await :: bool
  cjs_vars :: bool
  sourceMap :: "bool option"
  opt_warnings :: bool

text \<open>
  A package object. \<open>pkgId\<close> stands for the identity of the object (\<^verbatim>\<open>pkg === defaultPkg\<close>
  compares identities); \<open>cache_compile\<close> and \<open>cache_map\<close> are \<^verbatim>\<open>cache.compile\<close> and
  \<^verbatim>\<open>cache.map\<close>.
\<close>

record package =
  pkgId :: nat
  options :: options
  cache_compile :: "string \<rightharpoonup> slot"
  cache_map :: "string \<rightharpoonup> nat"
  cachePath :: string

record module_rec =
  filename :: string

text \<open>What the code reads of \<^verbatim>\<open>entry.parent\<close>: its package and its cache name.\<close>

record parent_ref =
  parent_package :: package
  parent_cacheName :: string

text \<open>
  A module entry. \<open>url\<close> is absent or a string; \<open>runtime\<close> is the runtime-binding object
  that \<^verbatim>\<open>Runtime.enable\<close> installs (absent before).
\<close>

record entry =
  cacheName :: string
  package :: package
  module :: module_rec
  state :: entry_state
  url :: "string option"
  parent :: "parent_ref option"
  runtimeName :: string
  runtime :: "nat option"

text \<open>
  The values that \<^verbatim>\<open>Module.wrap\<close> can hold: the default \<^verbatim>\<open>wrap\<close> of \<^verbatim>\<open>module/wrap.js\<close>, the
  two overrides of this file, or any other function that some other code has assigned.
\<close>

datatype wrapper = Wrap | ModuleWrapAsyncCJS | ModuleWrapESM | Foreign nat

text \<open>
  The process-wide state this file reads and writes: \<^verbatim>\<open>Module.wrap\<close> and the fields
  \<^verbatim>\<open>parsing\<close>, \<^verbatim>\<open>requireDepth\<close> and \<^verbatim>\<open>stat\<close> of \<^verbatim>\<open>moduleState\<close>. \<open>stat\<close> is \<^verbatim>\<open>null\<close> (\<open>None\<close>) or
  an object; \<open>warned\<close> collects what the warning sink received.
\<close>

record world =
  Module_wrap :: wrapper
  parsing :: bool
  requireDepth :: nat
  stat :: "(string \<rightharpoonup> nat) option"
  warned :: "(string \<times> string \<times> string list) list"

type_synonym caller = nat

text \<open>
  The \<^verbatim>\<open>content\<close> argument of \<^verbatim>\<open>maskStackTrace\<close>: the source text itself, or the thunk
  \<^verbatim>\<open>() => readSourceCode(filename)\<close>, which reads the file only when it is called.
\<close>

datatype content_arg = Content string | ReadSourceCode string

text \<open>
  The collaborators of the pipeline, none of which is in the sources: they are parameters
  of the model. \<open>'e\<close> is the type of thrown values, \<open>'v\<close> the type of evaluation results.
  A collaborator that can throw returns a sum (\<open>Inl\<close> the thrown value). The host primitive
  \<^verbatim>\<open>mod._compile\<close> runs arbitrary code, nested loads included: it is any function of the
  process-wide state. \<^verbatim>\<open>getSourceType\<close> and \<^verbatim>\<open>deleteSourceType\<close> read and delete the property
  \<^verbatim>\<open>sourceType\<close> of a thrown value; \<open>typeError\<close> is what reading a property of \<^verbatim>\<open>undefined\<close>
  throws. A string that may be \<^verbatim>\<open>undefined\<close> is a \<open>string option\<close>.

  The collaborators that throw, by their contracts, are the transformer
  (\<^verbatim>\<open>Compiler.compile\<close>), the validator and \<^verbatim>\<open>mod._compile\<close>. The others (\<^verbatim>\<open>Compiler.from\<close>,
  \<^verbatim>\<open>Runtime.enable\<close>, the path, file and source-map helpers, the warning sink) are taken to
  return normally. \<^verbatim>\<open>Runtime.enable\<close> works on the entry and the warning sink on the
  process-wide state; the other helpers only compute a value. The fields of an entry are
  written by the code of this file and by \<^verbatim>\<open>Runtime.enable\<close> only.
\<close>

record ('e, 'v) host =
  extname :: "string \<Rightarrow> string"
  resolve :: "string \<Rightarrow> string \<Rightarrow> string"
  Compiler_from :: "entry \<Rightarrow> cached option"
  Compiler_compile :: "entry \<Rightarrow> string \<Rightarrow> sourceType \<times> sourceType \<Rightarrow> 'e + cached"
  Runtime_enable :: "entry \<Rightarrow> entry"
  mod_compile :: "string \<Rightarrow> string \<Rightarrow> world \<Rightarrow> ('e + 'v) \<times> world"
  validateESM :: "entry \<Rightarrow> world \<Rightarrow> ('e + unit) \<times> world"
  warn :: "string \<Rightarrow> string \<Rightarrow> string list \<Rightarrow> world \<Rightarrow> world"
  isError :: "'e \<Rightarrow> bool"
  isStackTraceMasked :: "'e \<Rightarrow> bool"
  maskStackTrace :: "'e \<Rightarrow> content_arg \<Rightarrow> string \<Rightarrow> bool \<Rightarrow> 'e"
  captureStackTrace :: "'e \<Rightarrow> caller \<Rightarrow> 'e"
  getSourceType :: "'e \<Rightarrow> sourceType option"
  deleteSourceType :: "'e \<Rightarrow> 'e"
  typeError :: "'e"
  isInspect :: bool
  getSourceMappingURL :: "string option \<Rightarrow> string"
  createSourceMap :: "string \<Rightarrow> string option \<Rightarrow> string"
  encodeURI :: "string \<Rightarrow> string"
  getURLFromFilePath :: "string \<Rightarrow> string"
  readFileFast :: "string \<Rightarrow> string \<Rightarrow> string"
  shared_support_await :: bool
  shared_package_default :: nat

subsection \<open>Reading a cache slot\<close>

text \<open>
  \<^verbatim>\<open>cached && cached.sourceType === MODULE\<close>: false for an absent slot and for the sentinel
  (\<^verbatim>\<open>true.sourceType\<close> is \<^verbatim>\<open>undefined\<close>).
\<close>

fun isESM_slot :: "slot option \<Rightarrow> bool" where
  "isESM_slot (Some (Compiled c)) = (sourceType c = MODULE)"
| "isESM_slot _ = False"

text \<open>Property reads on a slot that is not absent; on the sentinel every property is \<^verbatim>\<open>undefined\<close>.\<close>

fun slot_code :: "slot \<Rightarrow> string option" where
  "slot_code (Compiled c) = Some (code c)"
| "slot_code Pending = None"

fun slot_changed :: "slot \<Rightarrow> bool" where
  "slot_changed (Compiled c) = changed c"
| "slot_changed Pending = False"

fun slot_topLevelReturn :: "slot \<Rightarrow> bool" where
  "slot_topLevelReturn (Compiled c) = topLevelReturn c"
| "slot_topLevelReturn Pending = False"

text \<open>String concatenation turns \<^verbatim>\<open>undefined\<close> into the text \<^verbatim>\<open>undefined\<close>.\<close>

fun js_str :: "string option \<Rightarrow> string" where
  "js_str (Some s) = s"
| "js_str None = ''undefined''"

text \<open>\<^verbatim>\<open>keys(object)\<close> of \<^verbatim>\<open>util/keys.js\<close>: the keys of the object.\<close>

definition keys :: "(string \<times> nat) list \<Rightarrow> string list" where
  "keys obj = map fst obj"

subsection \<open>\<^verbatim>\<open>useAsyncWrapper\<close> (lines 306-327)\<close>

definition useAsyncWrapper :: "('e, 'v) host \<Rightarrow> entry \<Rightarrow> bool" where
  "useAsyncWrapper h entry =
     (let pkg = package entry in
      if await (options pkg) \<and> shared_support_await h then
        (let cached = cache_compile pkg (cacheName entry);
             isESM = isESM_slot cached
         in if \<not> isESM then True
            else (case cached of
                    Some (Compiled c) \<Rightarrow>
                      (case exportSpecifiers c of
                         None \<Rightarrow> True
                       | Some specifiers \<Rightarrow> length (keys specifiers) = 0)
                  | _ \<Rightarrow> False))
      else False)"

subsection \<open>\<^verbatim>\<open>maybeSourceMap\<close>, \<^verbatim>\<open>readCachedCode\<close> (lines 241-256)\<close>

definition maybeSourceMap :: "('e, 'v) host \<Rightarrow> entry \<Rightarrow> string option \<Rightarrow> string" where
  "maybeSourceMap h entry content =
     (let sm = sourceMap (options (package entry)) in
      if sm \<noteq> Some False \<and> (sm = Some True \<or> isInspect h) \<and>
         getSourceMappingURL h content = ''''
      then ''//# sourceMappingURL=data:application/json;charset=utf-8,'' @
           encodeURI h (createSourceMap h (filename (module entry)) content)
      else '''')"

definition readCachedCode :: "('e, 'v) host \<Rightarrow> string \<Rightarrow> string" where
  "readCachedCode h name = readFileFast h name ''utf8''"

subsection \<open>The wrapper overrides (lines 230-239)\<close>

definition moduleWrapAsyncCJS :: "string \<Rightarrow> world \<Rightarrow> string \<times> world" where
  "moduleWrapAsyncCJS script w =
     (''(async function (exports, require, module, __filename, __dirname) { '' @
        script @ ''\<newline>});'',
      w\<lparr>Module_wrap := Wrap\<rparr>)"

definition moduleWrapESM :: "string \<Rightarrow> world \<Rightarrow> string \<times> world" where
  "moduleWrapESM script w =
     (''(function () { '' @ script @ ''\<newline>});'', w\<lparr>Module_wrap := Wrap\<rparr>)"

subsection \<open>\<^verbatim>\<open>tryCompileCJS\<close> (lines 161-191)\<close>

text \<open>
  The result is the outcome of \<^verbatim>\<open>mod._compile\<close> (returned or thrown), the entry and the
  process-wide state as the call leaves them. The \<^verbatim>\<open>finally\<close> block runs on both outcomes.
\<close>

definition tryCompileCJS ::
  "('e, 'v) host \<Rightarrow> entry \<Rightarrow> world \<Rightarrow> ('e + 'v) \<times> entry \<times> world" where
  "tryCompileCJS h entry w =
     (case cache_compile (package entry) (cacheName entry) of
        None \<Rightarrow> (Inl (typeError h), entry, w)
      | Some cached \<Rightarrow>
          (let md = module entry;
               useAsync = useAsyncWrapper h entry;
               content = slot_code cached;
               (content1, entry1, w1) =
                 (if slot_changed cached then
                    (Some ((if slot_topLevelReturn cached then ''return '' else '''') @
                           ''this.r(('' @
                           (if useAsync then ''async '' else '''') @
                           ''function('' @ runtimeName entry @ '',global,exports,require){'' @
                           js_str content @
                           ''\<newline>}))''),
                     Runtime_enable h entry, w)
                  else if useAsync then (content, entry, w\<lparr>Module_wrap := ModuleWrapAsyncCJS\<rparr>)
                  else (content, entry, w));
               content2 = js_str content1 @ maybeSourceMap h entry1 content1;
               (result, w2) = mod_compile h content2 (filename md) w1
           in (result, entry1,
               if Module_wrap w2 = ModuleWrapAsyncCJS then w2\<lparr>Module_wrap := Wrap\<rparr> else w2)))"

subsection \<open>\<^verbatim>\<open>tryCompileESM\<close> (lines 193-228)\<close>

definition tryCompileESM ::
  "('e, 'v) host \<Rightarrow> entry \<Rightarrow> world \<Rightarrow> ('e + 'v) \<times> entry \<times> world" where
  \<open>tryCompileESM h entry w =
     (let md = module entry; pkg = package entry in
      case cache_compile pkg (cacheName entry) of
        None \<Rightarrow> (Inl (typeError h), entry, w)
      | Some cached \<Rightarrow>
          (let cjsVars = cjs_vars (options pkg);
               fname = filename md;
               content =
                 (if slot_topLevelReturn cached then ''return '' else '''') @
                 ''this.r(('' @
                 (if useAsyncWrapper h entry then ''async '' else '''') @
                 ''function('' @ runtimeName entry @ '',global'' @
                 (if cjsVars then '',exports,require'' else '''') @
                 ''){"use strict";'' @
                 js_str (slot_code cached) @
                 ''\<newline>}))'';
               content1 = content @ maybeSourceMap h entry (Some content);
               entry1 = (if url entry = None \<or> url entry = Some ''''
                         then entry\<lparr>url := Some (getURLFromFilePath h fname)\<rparr> else entry);
               w1 = (if \<not> cjsVars then w\<lparr>Module_wrap := ModuleWrapESM\<rparr> else w);
               entry2 = Runtime_enable h entry1;
               (result, w2) = mod_compile h content1 fname w1
           in (result, entry2,
               if Module_wrap w2 = ModuleWrapESM then w2\<lparr>Module_wrap := Wrap\<rparr> else w2)))\<close>

subsection \<open>\<^verbatim>\<open>tryCompileCached\<close> (lines 119-159)\<close>

text \<open>
  In debug mode a throw of the inner call leaves the function at once: the reset of
  \<open>stat\<close> that follows the call is not reached. Outside debug mode the \<^verbatim>\<open>finally\<close> block
  resets it on both outcomes.
\<close>

definition tryCompileCached ::
  "('e, 'v) host \<Rightarrow> entry \<Rightarrow> world \<Rightarrow> ('e + 'v) \<times> entry \<times> world" where
  "tryCompileCached h entry w =
     (let pkg = package entry;
          cached = cache_compile pkg (cacheName entry);
          isESM = isESM_slot cached;
          noDepth = (requireDepth w = 0);
          tryCompile = (if isESM then tryCompileESM else tryCompileCJS);
          w1 = (if noDepth then w\<lparr>stat := Some Map.empty\<rparr> else w)
      in if debug (options pkg) then
           (case tryCompile h entry w1 of
              (Inl e, entry1, w2) \<Rightarrow> (Inl e, entry1, w2)
            | (Inr result, entry1, w2) \<Rightarrow>
                (Inr result, entry1, if noDepth then w2\<lparr>stat := None\<rparr> else w2))
         else
           (case tryCompile h entry w1 of
              (Inr result, entry1, w2) \<Rightarrow>
                (Inr result, entry1, if noDepth then w2\<lparr>stat := None\<rparr> else w2)
            | (Inl e, entry1, w2) \<Rightarrow>
                (let thrown =
                       (if \<not> isError h e \<or> isStackTraceMasked h e then e
                        else (let fname = filename (module entry1);
                                  content = ReadSourceCode fname
                              in maskStackTrace h e content fname isESM))
                 in (Inl thrown, entry1, if noDepth then w2\<lparr>stat := None\<rparr> else w2))))"

subsection \<open>\<^verbatim>\<open>tryCompileCode\<close> (lines 262-281) and \<^verbatim>\<open>tryValidateESM\<close> (lines 283-304)\<close>

definition tryCompileCode ::
  "('e, 'v) host \<Rightarrow> caller \<Rightarrow> entry \<Rightarrow> string \<Rightarrow> sourceType \<times> sourceType \<Rightarrow> 'e + cached" where
  "tryCompileCode h caller entry content opts =
     (if debug (options (package entry)) then Compiler_compile h entry content opts
      else (case Compiler_compile h entry content opts of
              Inr c \<Rightarrow> Inr c
            | Inl e \<Rightarrow>
                if \<not> isError h e \<or> isStackTraceMasked h e then Inl e
                else (let isESM = (getSourceType h e = Some MODULE);
                          e1 = deleteSourceType h e;
                          e2 = captureStackTrace h e1 caller
                      in Inl (maskStackTrace h e2 (Content content)
                                (filename (module entry)) isESM))))"

definition tryValidateESM ::
  "('e, 'v) host \<Rightarrow> caller \<Rightarrow> entry \<Rightarrow> world \<Rightarrow> ('e + unit) \<times> world" where
  "tryValidateESM h caller entry w =
     (if debug (options (package entry)) then validateESM h entry w
      else (case validateESM h entry w of
              (Inr u, w1) \<Rightarrow> (Inr u, w1)
            | (Inl e, w1) \<Rightarrow>
                if \<not> isError h e \<or> isStackTraceMasked h e then (Inl e, w1)
                else (let fname = filename (module entry);
                          content = ReadSourceCode fname;
                          e1 = captureStackTrace h e caller
                      in (Inl (maskStackTrace h e1 content fname True), w1))))"

subsection \<open>\<^verbatim>\<open>compile\<close> (lines 40-117)\<close>

text \<open>
  Lines 43-58: the pair \<open>(hint, sourceType)\<close> that the transformer receives.
\<close>

definition compile_dialect ::
  "('e, 'v) host \<Rightarrow> options \<Rightarrow> string \<Rightarrow> sourceType \<times> sourceType" where
  "compile_dialect h opts fname =
     (let hint = SCRIPT;
          sourceType = (if mode opts = ''all'' then MODULE
                        else if mode opts = ''js'' then UNAMBIGUOUS
                        else SCRIPT)
      in if extname h fname = ''.mjs''
         then (MODULE, if sourceType = SCRIPT then MODULE else sourceType)
         else (hint, sourceType))"

text \<open>
  Lines 60-84: the cache lookup. The local variable \<^verbatim>\<open>cached\<close> is a record or falsy
  (\<open>None\<close>); the result is the record the rest of \<^verbatim>\<open>compile\<close> goes on with, or the value
  thrown by the transformer, and the entry with its package caches as the lines leave
  them.
\<close>

definition compile_cached ::
  "('e, 'v) host \<Rightarrow> caller \<Rightarrow> entry \<Rightarrow> string \<Rightarrow> sourceType \<times> sourceType \<Rightarrow>
     ('e + cached) \<times> entry" where
  "compile_cached h caller entry content opts =
     (let pkg = package entry;
          name = cacheName entry;
          (cached, entry1) =
            (case cache_compile pkg name of
               Some Pending \<Rightarrow>
                 (case Compiler_from h entry of
                    Some c \<Rightarrow>
                      (let c1 = c\<lparr>code := readCachedCode h (resolve h (cachePath pkg) name)\<rparr>
                       in (Some c1,
                           entry\<lparr>package := pkg\<lparr>cache_compile :=
                                    (cache_compile pkg)(name \<mapsto> Compiled c1)\<rparr>\<rparr>))
                  | None \<Rightarrow>
                      (None,
                       entry\<lparr>package := pkg\<lparr>cache_compile := (cache_compile pkg)(name := None),
                                               cache_map := (cache_map pkg)(name := None)\<rparr>\<rparr>))
             | Some (Compiled c) \<Rightarrow> (Some c, entry)
             | None \<Rightarrow> (None, entry))
      in case cached of
           Some c \<Rightarrow> (Inr c, entry1)
         | None \<Rightarrow>
             (case tryCompileCode h caller entry1 content opts of
                Inl e \<Rightarrow> (Inl e, entry1)
              | Inr c \<Rightarrow>
                  (Inr c,
                   entry1\<lparr>package := (package entry1)\<lparr>cache_compile :=
                             (cache_compile (package entry1))(name \<mapsto> Compiled c)\<rparr>\<rparr>)))"

text \<open>
  The whole function. \<^verbatim>\<open>fallback\<close> is absent or a function of the caller; the result
  \<open>None\<close> is \<^verbatim>\<open>undefined\<close>. The parent's package may be the very object \<^verbatim>\<open>pkg\<close>: then its
  cache is read as the lines above left it.
\<close>

definition compile ::
  "('e, 'v) host \<Rightarrow> caller \<Rightarrow> entry \<Rightarrow> string \<Rightarrow> string \<Rightarrow>
     (world \<Rightarrow> ('e + 'v option) \<times> world) option \<Rightarrow> world \<Rightarrow>
     ('e + 'v option) \<times> entry \<times> world" where
  "compile h caller entry content fname fallback w =
     (let opts = options (package entry) in
      case compile_cached h caller entry content (compile_dialect h opts fname) of
        (Inl e, entry1) \<Rightarrow> (Inl e, entry1, w)
      | (Inr cached, entry1) \<Rightarrow>
          (let w1 = (if opt_warnings opts \<and> parsing w
                     then fold (\<lambda>(wcode, wargs). warn h wcode fname wargs) (warnings cached) w
                     else w)
           in if parsing w1 then
                (let pkg = package entry1;
                     isESM = isESM_slot (cache_compile pkg (cacheName entry1));
                     parentCached =
                       (case parent entry1 of
                          None \<Rightarrow> None
                        | Some p \<Rightarrow>
                            (if pkgId (parent_package p) = pkgId pkg
                             then cache_compile pkg (parent_cacheName p)
                             else cache_compile (parent_package p) (parent_cacheName p)));
                     parentIsESM = isESM_slot parentCached;
                     parentIsDefault =
                       (case parent entry1 of
                          None \<Rightarrow> False
                        | Some p \<Rightarrow> pkgId (parent_package p) = shared_package_default h)
                 in if \<not> isESM \<and> \<not> parentIsESM \<and>
                       (pkgId pkg = shared_package_default h \<or> parentIsDefault)
                    then (case fallback of
                            None \<Rightarrow> (Inr None, entry1, w1)
                          | Some f \<Rightarrow> (let (r, w2) = f w1 in (r, entry1, w2)))
                    else if isESM \<and> state entry1 = PARSING_STARTED
                    then (case tryValidateESM h caller entry1 w1 of
                            (Inl e, w2) \<Rightarrow> (Inl e, entry1, w2)
                          | (Inr u, w2) \<Rightarrow> (Inr None, entry1, w2))
                    else (Inr None, entry1, w1))
              else
                (let entry2 = entry1\<lparr>state := EXECUTION_STARTED\<rparr> in
                 case tryCompileCached h entry2 w1 of
                   (Inl e, entry3, w2) \<Rightarrow> (Inl e, entry3, w2)
                 | (Inr result, entry3, w2) \<Rightarrow> (Inr (Some result), entry3, w2))))"

section \<open>The identity mask, \<^verbatim>\<open>maskFunction\<close>\<close>

subsection \<open>Values, the memo table and the object operations\<close>

text \<open>
  A JavaScript value, as far as \<^verbatim>\<open>maskFunction\<close> tells values apart: \<^verbatim>\<open>undefined\<close>, another
  primitive, an object that is not callable, or a function. The number of an object is
  its identity. \<^verbatim>\<open>typeof v === "function"\<close> holds of the functions.
\<close>

datatype val = JSUndefined | JSPrimitive nat | JSObject nat | JSFunction nat

fun is_function :: "val \<Rightarrow> bool" where
  "is_function (JSFunction n) = True"
| "is_function v = False"

text \<open>The cache record \<^verbatim>\<open>{ proxy, source, toString }\<close>.\<close>

record mask_record =
  proxy :: val
  source :: val
  toString :: val

text \<open>
  The two handler objects of lines 133-158, each a closure over \<^verbatim>\<open>func\<close>. Their traps run
  when the proxy is used, after \<^verbatim>\<open>maskFunction\<close> has returned; the model records which
  handler a proxy was made with.
\<close>

datatype handler = GetHandler val | ApplyHandler val

text \<open>
  The state \<^verbatim>\<open>maskFunction\<close> works on: the memo table \<^verbatim>\<open>shared.memoize.utilMaskFunction\<close>
  (keyed by object identity), the identity the next new object gets, the proxies made so
  far with their target and handler, and the properties of all objects (\<open>'h\<close>, left
  abstract).
\<close>

record 'h mask_state =
  cache :: "val \<rightharpoonup> mask_record"
  next_ref :: nat
  proxies :: "nat \<rightharpoonup> val \<times> handler"
  heap :: 'h

text \<open>
  The operations on the properties of objects: the helpers \<^verbatim>\<open>has\<close>, \<^verbatim>\<open>copyProperty\<close>,
  \<^verbatim>\<open>isObjectLike\<close> (not in the sources), the \<^verbatim>\<open>Reflect\<close> built-ins, and reading and writing a
  property (\<open>get_property\<close>, \<open>set_property\<close>). Each may throw and may change the properties;
  \<open>'d\<close> is the type of property descriptors, \<open>'e\<close> of thrown values.
\<close>

record ('h, 'd, 'e) jsops =
  get_property :: "val \<Rightarrow> string \<Rightarrow> 'h \<Rightarrow> ('e + val) \<times> 'h"
  set_property :: "val \<Rightarrow> string \<Rightarrow> val \<Rightarrow> 'h \<Rightarrow> ('e + unit) \<times> 'h"
  has :: "val \<Rightarrow> string \<Rightarrow> 'h \<Rightarrow> ('e + bool) \<times> 'h"
  copyProperty :: "val \<Rightarrow> val \<Rightarrow> string \<Rightarrow> 'h \<Rightarrow> ('e + unit) \<times> 'h"
  isObjectLike :: "val \<Rightarrow> bool"
  Reflect_getPrototypeOf :: "val \<Rightarrow> 'h \<Rightarrow> ('e + val) \<times> 'h"
  Reflect_setPrototypeOf :: "val \<Rightarrow> val \<Rightarrow> 'h \<Rightarrow> ('e + unit) \<times> 'h"
  Reflect_getOwnPropertyDescriptor :: "val \<Rightarrow> string \<Rightarrow> 'h \<Rightarrow> ('e + 'd option) \<times> 'h"
  Reflect_defineProperty :: "val \<Rightarrow> string \<Rightarrow> 'd \<Rightarrow> 'h \<Rightarrow> ('e + unit) \<times> 'h"
  proxyTypeError :: 'e

subsection \<open>Sequencing steps that may throw\<close>

text \<open>
  A step takes the state and gives a returned or thrown value with the state it leaves;
  a throw ends the sequence and keeps the state reached.
\<close>

definition returnM :: "'a \<Rightarrow> 's \<Rightarrow> ('e + 'a) \<times> 's" where
  "returnM x s = (Inr x, s)"

definition bindM ::
  "('s \<Rightarrow> ('e + 'a) \<times> 's) \<Rightarrow> ('a \<Rightarrow> 's \<Rightarrow> ('e + 'b) \<times> 's) \<Rightarrow> 's \<Rightarrow> ('e + 'b) \<times> 's" where
  "bindM m f s = (case m s of (Inl e, s1) \<Rightarrow> (Inl e, s1) | (Inr x, s1) \<Rightarrow> f x s1)"

definition on_heap ::
  "('h \<Rightarrow> ('e + 'a) \<times> 'h) \<Rightarrow> 'h mask_state \<Rightarrow> ('e + 'a) \<times> 'h mask_state" where
  "on_heap step st = (case step (heap st) of (r, h1) \<Rightarrow> (r, st\<lparr>heap := h1\<rparr>))"

text \<open>
  Modelled from the spec: \<^verbatim>\<open>new OwnProxy(target, handler)\<close> (\<^verbatim>\<open>own/proxy.js\<close> is missing),
  "a transparent interception wrapper around \<^verbatim>\<open>func\<close>". As for the built-in \<^verbatim>\<open>Proxy\<close>, the
  result is a new object, callable when its target is, and a target that is no object is
  a \<^verbatim>\<open>TypeError\<close>.
\<close>

definition OwnProxy_new ::
  "('h, 'd, 'e) jsops \<Rightarrow> val \<Rightarrow> handler \<Rightarrow> 'h mask_state \<Rightarrow> ('e + val) \<times> 'h mask_state" where
  "OwnProxy_new js target hdl st =
     (case target of
        JSFunction n \<Rightarrow>
          (Inr (JSFunction (next_ref st)),
           st\<lparr>next_ref := Suc (next_ref st),
              proxies := (proxies st)(next_ref st \<mapsto> (target, hdl))\<rparr>)
      | JSObject n \<Rightarrow>
          (Inr (JSObject (next_ref st)),
           st\<lparr>next_ref := Suc (next_ref st),
              proxies := (proxies st)(next_ref st \<mapsto> (target, hdl))\<rparr>)
      | _ \<Rightarrow> (Inl (proxyTypeError js), st))"

subsection \<open>\<^verbatim>\<open>maskFunction\<close> (lines 120-199 of the second source file)\<close>

definition maskFunction ::
  "('h, 'd, 'e) jsops \<Rightarrow> val \<Rightarrow> val \<Rightarrow> 'h mask_state \<Rightarrow> ('e + val) \<times> 'h mask_state" where
  "maskFunction js func source0 st =
     (if \<not> is_function source0 then (Inr func, st)
      else
        (case cache st func of
           Some cached \<Rightarrow> (Inr (proxy cached), st)
         | None \<Rightarrow>
            bindM (OwnProxy_new js func (GetHandler func)) (\<lambda>prox.
            bindM (on_heap (get_property js func ''toString'')) (\<lambda>funcToString.
            bindM (OwnProxy_new js funcToString (ApplyHandler func)) (\<lambda>toStr.
            bindM (\<lambda>s. (Inr (case cache s source0 of
                                Some r \<Rightarrow> source r
                              | None \<Rightarrow> source0), s)) (\<lambda>src.
            bindM (on_heap (has js func ''prototype'')) (\<lambda>hasProto.
            bindM (on_heap (has js src ''prototype'')) (\<lambda>srcHasProto.
            bindM (if srcHasProto then on_heap (get_property js src ''prototype'')
                   else returnM JSUndefined) (\<lambda>sourceProto.
            bindM (on_heap (copyProperty js func src ''name'')) (\<lambda>u1.
            bindM (on_heap (Reflect_getPrototypeOf js src)) (\<lambda>srcParent.
            bindM (on_heap (Reflect_setPrototypeOf js func srcParent)) (\<lambda>u2.
            bindM (if hasProto \<and> isObjectLike js sourceProto then
                     bindM (on_heap (get_property js func ''prototype'')) (\<lambda>funcProto.
                     bindM (on_heap (Reflect_getPrototypeOf js sourceProto)) (\<lambda>protoParent.
                     on_heap (Reflect_setPrototypeOf js funcProto protoParent)))
                   else
                     bindM (on_heap (Reflect_getOwnPropertyDescriptor js src ''prototype''))
                       (\<lambda>descriptor.
                          case descriptor of
                            Some d \<Rightarrow> on_heap (Reflect_defineProperty js func ''prototype'' d)
                          | None \<Rightarrow>
                              if hasProto then on_heap (set_property js func ''prototype'' sourceProto)
                              else returnM ())) (\<lambda>u3.
            (\<lambda>s. (let cached = \<lparr>proxy = prox, source = src, toString = toStr\<rparr>
                  in (Inr prox,
                      s\<lparr>cache := (cache s)(func \<mapsto> cached, prox \<mapsto> cached)\<rparr>)))))))))))))) st))"

text \<open>
  An object is allocated in a state when its identity has been given out; a primitive
  always is.
\<close>

fun allocated :: "'h mask_state \<Rightarrow> val \<Rightarrow> bool" where
  "allocated st (JSObject n) = (n < next_ref st)"
| "allocated st (JSFunction n) = (n < next_ref st)"
| "allocated st v = True"

text \<open>
  What can happen after a state: calls of \<^verbatim>\<open>maskFunction\<close> on allocated values (returning or
  throwing), and other code that makes new objects and changes properties. Only
  \<^verbatim>\<open>maskFunction\<close> writes the memo table.
\<close>

inductive later :: "('h, 'd, 'e) jsops \<Rightarrow> 'h mask_state \<Rightarrow> 'h mask_state \<Rightarrow> bool"
  for js :: "('h, 'd, 'e) jsops" and st :: "'h mask_state" where
  later_now: "later js st st"
| later_call:
    "later js st st1 \<Longrightarrow> allocated st1 func \<Longrightarrow>
     later js st (snd (maskFunction js func src st1))"
| later_other:
    "later js st st1 \<Longrightarrow> next_ref st1 \<le> n \<Longrightarrow>
     later js st (st1\<lparr>next_ref := n, proxies := ps, heap := h\<rparr>)"

text \<open>The states of a process: those after a state with an empty memo table.\<close>

definition reachable :: "('h, 'd, 'e) jsops \<Rightarrow> 'h mask_state \<Rightarrow> bool" where
  "reachable js st = (\<exists>st0. cache st0 = Map.empty \<and> later js st0 st)"

section \<open>Notions used in the statements and proofs\<close>


fun is_object :: "val \<Rightarrow> bool" where
  "is_object (JSObject n) = True"
| "is_object (JSFunction n) = True"
| "is_object v = False"

text \<open>A step that leaves the memo table alone and takes no identity back.\<close>

definition frames :: "('h mask_state \<Rightarrow> ('e + 'a) \<times> 'h mask_state) \<Rightarrow> bool" where
  "frames m = (\<forall>s r s1. m s = (r, s1) \<longrightarrow> cache s1 = cache s \<and> next_ref s \<le> next_ref s1)"

text \<open>
  A step that either throws and leaves the memo table alone, or returns \<open>prox\<close> and stores
  one record, with \<open>prox\<close> as its proxy, under \<open>func\<close> and under \<open>prox\<close>.
\<close>

definition records ::
  "val \<Rightarrow> val \<Rightarrow> ('h mask_state \<Rightarrow> ('e + val) \<times> 'h mask_state) \<Rightarrow> bool" where
  "records func prox m =
     (\<forall>s r s1. m s = (r, s1) \<longrightarrow>
        next_ref s \<le> next_ref s1 \<and>
        ((\<exists>e. r = Inl e) \<and> cache s1 = cache s \<or>
         r = Inr prox \<and>
         (\<exists>rec. proxy rec = prox \<and> cache s1 = (cache s)(func \<mapsto> rec, prox \<mapsto> rec))))"

text \<open>
  The invariant of the memo table: every key is an allocated object, and the proxy of
  the record under a key is itself a key of the same record.
\<close>

definition mask_inv :: "'h mask_state \<Rightarrow> bool" where
  "mask_inv st =
     (\<forall>k rec. cache st k = Some rec \<longrightarrow>
        is_object k \<and> allocated st k \<and> cache st (proxy rec) = Some rec)"

section \<open>Concrete inputs\<close>

text \<open>
  A host whose \<^verbatim>\<open>mod._compile\<close> returns the content it is handed and does nothing else:
  the result of a call then shows what the call passed to the primitive.
\<close>

definition handed :: "('e, string) host \<Rightarrow> ('e, string) host" where
  "handed h = h\<lparr>mod_compile := (\<lambda>content fname w. (Inr content, w))\<rparr>"

text \<open>
  Thrown values that keep track of what was done to them: a primitive, an error object
  with its \<^verbatim>\<open>sourceType\<close> property, and the results of \<^verbatim>\<open>captureStackTrace\<close> and
  \<^verbatim>\<open>maskStackTrace\<close>.
\<close>

datatype thrown =
    ThrownPrimitive nat
  | ErrorObject nat "sourceType option"
  | Captured thrown caller
  | Masked thrown content_arg string bool

fun ex_isError :: "thrown \<Rightarrow> bool" where
  "ex_isError (ThrownPrimitive n) = False"
| "ex_isError e = True"

fun ex_isStackTraceMasked :: "thrown \<Rightarrow> bool" where
  "ex_isStackTraceMasked (Masked e c f b) = True"
| "ex_isStackTraceMasked (Captured e c) = ex_isStackTraceMasked e"
| "ex_isStackTraceMasked e = False"

fun ex_getSourceType :: "thrown \<Rightarrow> sourceType option" where
  "ex_getSourceType (ErrorObject n st) = st"
| "ex_getSourceType (Captured e c) = ex_getSourceType e"
| "ex_getSourceType (Masked e c f b) = ex_getSourceType e"
| "ex_getSourceType (ThrownPrimitive n) = None"

fun ex_deleteSourceType :: "thrown \<Rightarrow> thrown" where
  "ex_deleteSourceType (ErrorObject n st) = ErrorObject n None"
| "ex_deleteSourceType (Captured e c) = Captured (ex_deleteSourceType e) c"
| "ex_deleteSourceType (Masked e c f b) = Masked (ex_deleteSourceType e) c f b"
| "ex_deleteSourceType (ThrownPrimitive n) = ThrownPrimitive n"

text \<open>How often \<^verbatim>\<open>maskStackTrace\<close> was applied to a thrown value.\<close>

fun count_masks :: "thrown \<Rightarrow> nat" where
  "count_masks (Masked e c f b) = Suc (count_masks e)"
| "count_masks (Captured e c) = count_masks e"
| "count_masks e = 0"

text \<open>
  \<^verbatim>\<open>path.extname\<close> for POSIX paths: the last path segment (trailing slashes apart) from its
  last dot on; empty when the segment has no dot, when its only dot is its first
  character, and for the segment \<^verbatim>\<open>..\<close>.
\<close>

definition ex_basename :: "string \<Rightarrow> string" where
  "ex_basename p =
     rev (takeWhile (\<lambda>c. c \<noteq> CHR ''/'') (dropWhile (\<lambda>c. c = CHR ''/'') (rev p)))"

definition ex_extname :: "string \<Rightarrow> string" where
  "ex_extname p =
     (let base = ex_basename p;
          ext = rev (takeWhile (\<lambda>c. c \<noteq> CHR ''.'') (rev base))
      in if CHR ''.'' \<notin> set base \<or> length ext + 1 = length base \<or> base = ''..''
         then [] else CHR ''.'' # ext)"

text \<open>
  A compile-and-run primitive that calls the installed \<^verbatim>\<open>Module.wrap\<close> on the content, as
  the host does, and returns the wrapped text.
\<close>

definition ex_run :: "string \<Rightarrow> string \<Rightarrow> world \<Rightarrow> (thrown + string) \<times> world" where
  "ex_run content fname w =
     (case Module_wrap w of
        ModuleWrapAsyncCJS \<Rightarrow> (case moduleWrapAsyncCJS content w of (s, w1) \<Rightarrow> (Inr s, w1))
      | ModuleWrapESM \<Rightarrow> (case moduleWrapESM content w of (s, w1) \<Rightarrow> (Inr s, w1))
      | _ \<Rightarrow> (Inr content, w))"

definition ex_host :: "(thrown, string) host" where
  "ex_host =
     \<lparr>extname = ex_extname,
      resolve = (\<lambda>dir name. dir @ ''/'' @ name),
      Compiler_from = (\<lambda>entry. None),
      Compiler_compile = (\<lambda>entry content opts.
         Inr \<lparr>code = content, sourceType = snd opts, changed = True, topLevelReturn = False,
              exportSpecifiers = None, warnings = []\<rparr>),
      Runtime_enable = (\<lambda>entry. entry\<lparr>runtime := Some 0\<rparr>),
      mod_compile = ex_run,
      validateESM = (\<lambda>entry w. (Inr (), w)),
      warn = (\<lambda>wcode fname wargs w. w\<lparr>warned := warned w @ [(wcode, fname, wargs)]\<rparr>),
      isError = ex_isError,
      isStackTraceMasked = ex_isStackTraceMasked,
      maskStackTrace = Masked,
      captureStackTrace = Captured,
      getSourceType = ex_getSourceType,
      deleteSourceType = ex_deleteSourceType,
      typeError = ErrorObject 0 None,
      isInspect = False,
      getSourceMappingURL = (\<lambda>content. []),
      createSourceMap = (\<lambda>fname content. ''{}''),
      encodeURI = (\<lambda>s. s),
      getURLFromFilePath = (\<lambda>fname. ''file://'' @ fname),
      readFileFast = (\<lambda>fname enc. ''cached''),
      shared_support_await = True,
      shared_package_default = 0\<rparr>"

definition ex_options :: options where
  "ex_options = \<lparr>mode = ''auto'', debug = False, await = True, cjs_vars = False,
                  sourceMap = None, opt_warnings = False\<rparr>"

text \<open>An unchanged script with a top-level return, and an import/export module.\<close>

definition ex_script :: cached where
  "ex_script = \<lparr>code = ''return 5'', sourceType = SCRIPT, changed = False,
                 topLevelReturn = True, exportSpecifiers = None, warnings = []\<rparr>"

definition ex_module :: cached where
  "ex_module = \<lparr>code = ''x=1'', sourceType = MODULE, changed = True,
                 topLevelReturn = False, exportSpecifiers = Some [], warnings = []\<rparr>"

definition ex_package :: "options \<Rightarrow> slot option \<Rightarrow> package" where
  "ex_package opts s =
     \<lparr>pkgId = 1, options = opts, cache_compile = (\<lambda>k. if k = ''a'' then s else None),
      cache_map = [''a'' \<mapsto> 0], cachePath = ''/cache''\<rparr>"

definition ex_entry :: "options \<Rightarrow> slot option \<Rightarrow> entry" where
  "ex_entry opts s =
     \<lparr>cacheName = ''a'', package = ex_package opts s, module = \<lparr>filename = ''/src/a.js''\<rparr>,
      state = INITIAL, url = None, parent = None, runtimeName = ''_r'', runtime = None\<rparr>"

definition ex_world :: world where
  "ex_world = \<lparr>Module_wrap = Wrap, parsing = False, requireDepth = 0, stat = None,
                warned = []\<rparr>"


definition ex_options_debug :: options where
  "ex_options_debug = \<lparr>mode = ''auto'', debug = True, await = True, cjs_vars = False,
                        sourceMap = None, opt_warnings = False\<rparr>"

text \<open>A host whose compile-and-run primitive throws an error object at once.\<close>

definition ex_host_throwing :: "(thrown, string) host" where
  "ex_host_throwing =
     ex_host\<lparr>mod_compile := (\<lambda>content fname w. (Inl (ErrorObject 1 None), w))\<rparr>"

text \<open>A host whose transformer, validator and primitive all throw the given value.\<close>

definition ex_host_failing :: "thrown \<Rightarrow> (thrown, string) host" where
  "ex_host_failing e =
     ex_host\<lparr>Compiler_compile := (\<lambda>entry content opts. Inl e),
             mod_compile := (\<lambda>content fname w. (Inl e, w)),
             validateESM := (\<lambda>entry w. (Inl e, w))\<rparr>"


text \<open>
  Object operations that always succeed and change nothing; \<^verbatim>\<open>toString\<close> of any function is
  the function 1. In the first state the objects 0 to 3 exist and nothing is masked; the
  next two states follow the masking of function 2 and then of function 3.
\<close>

definition ex_js :: "(unit, nat, nat) jsops" where
  "ex_js =
     \<lparr>get_property = (\<lambda>v name h. (Inr (JSFunction 1), h)),
      set_property = (\<lambda>v name x h. (Inr (), h)),
      has = (\<lambda>v name h. (Inr True, h)),
      copyProperty = (\<lambda>target src name h. (Inr (), h)),
      isObjectLike = is_object,
      Reflect_getPrototypeOf = (\<lambda>v h. (Inr (JSObject 0), h)),
      Reflect_setPrototypeOf = (\<lambda>v p h. (Inr (), h)),
      Reflect_getOwnPropertyDescriptor = (\<lambda>v name h. (Inr None, h)),
      Reflect_defineProperty = (\<lambda>v name d h. (Inr (), h)),
      proxyTypeError = 0\<rparr>"

definition ex_mask_state :: "unit mask_state" where
  "ex_mask_state = \<lparr>cache = Map.empty, next_ref = 4, proxies = Map.empty, heap = ()\<rparr>"

definition ex_state1 :: "unit mask_state" where
  "ex_state1 = snd (maskFunction ex_js (JSFunction 2) (JSFunction 3) ex_mask_state)"

definition ex_state2 :: "unit mask_state" where
  "ex_state2 = snd (maskFunction ex_js (JSFunction 3) (JSFunction 2) ex_state1)"

section \<open>Properties of the compile pipeline\<close>

lemmas ex_defs = ex_entry_def ex_package_def ex_options_def ex_script_def ex_module_def
  ex_world_def ex_host_def

subsection \<open>The async-wrapper policy\<close>

text \<open>
  Claim C2. \<^verbatim>\<open>useAsyncWrapper(entry)\<close> returns true if and only if the package's \<^verbatim>\<open>await\<close>
  option is enabled and the host supports \<^verbatim>\<open>await\<close>, and either the cached compilation is
  not of the import/export dialect (no record at all counts as not \<^verbatim>\<open>MODULE\<close>), or it is
  \<^verbatim>\<open>MODULE\<close> and its \<^verbatim>\<open>exportSpecifiers\<close> is absent or has no keys. In every other case it
  returns false.
\<close>

theorem useAsyncWrapper_iff:
  "useAsyncWrapper h entry \<longleftrightarrow>
     await (options (package entry)) \<and> shared_support_await h \<and>
     (case cache_compile (package entry) (cacheName entry) of
        Some (Compiled c) \<Rightarrow>
          sourceType c \<noteq> MODULE \<or>
          (sourceType c = MODULE \<and>
           (case exportSpecifiers c of None \<Rightarrow> True | Some es \<Rightarrow> length (keys es) = 0))
      | _ \<Rightarrow> True)"
  by (auto simp add: useAsyncWrapper_def Let_def split: option.splits slot.splits)

text \<open>
  The scenarios of the specification: an import/export module with no named export is
  run async, one with a named export is not; a script is run async when \<^verbatim>\<open>await\<close> is
  enabled and not otherwise.
\<close>

theorem useAsyncWrapper_iff_witness:
  "useAsyncWrapper ex_host (ex_entry ex_options (Some (Compiled ex_module))) \<and>
   \<not> useAsyncWrapper ex_host
       (ex_entry ex_options
          (Some (Compiled (ex_module\<lparr>exportSpecifiers := Some [(''x'', 0)]\<rparr>)))) \<and>
   useAsyncWrapper ex_host (ex_entry ex_options (Some (Compiled ex_script))) \<and>
   \<not> useAsyncWrapper ex_host
       (ex_entry (ex_options\<lparr>await := False\<rparr>) (Some (Compiled ex_script)))"
  using useAsyncWrapper_iff [of ex_host "ex_entry ex_options (Some (Compiled ex_module))"]
    useAsyncWrapper_iff [of ex_host
      "ex_entry ex_options
         (Some (Compiled (ex_module\<lparr>exportSpecifiers := Some [(''x'', 0)]\<rparr>)))"]
    useAsyncWrapper_iff [of ex_host "ex_entry ex_options (Some (Compiled ex_script))"]
    useAsyncWrapper_iff [of ex_host
      "ex_entry (ex_options\<lparr>await := False\<rparr>) (Some (Compiled ex_script))"]
  by (simp add: ex_defs keys_def)

subsection \<open>Dialect resolution\<close>

text \<open>
  Claim C3. The pair \<open>(hint, sourceType)\<close> that \<^verbatim>\<open>compile\<close> passes to the transformer is a
  function of the package mode and the extension of the file name only: the hint is
  \<^verbatim>\<open>MODULE\<close> exactly for the extension \<^verbatim>\<open>.mjs\<close>; the source type is \<^verbatim>\<open>MODULE\<close> for the mode
  \<^verbatim>\<open>all\<close>, \<^verbatim>\<open>UNAMBIGUOUS\<close> for the mode \<^verbatim>\<open>js\<close>, and otherwise \<^verbatim>\<open>SCRIPT\<close>, upgraded to \<^verbatim>\<open>MODULE\<close>
  for the extension \<^verbatim>\<open>.mjs\<close>. Equal modes and extensions give equal pairs. And this pair is
  what the transformer gets from \<^verbatim>\<open>compile\<close>: with no record in the cache, \<^verbatim>\<open>compile\<close> throws
  what the transformer throws for this pair (masked as \<^verbatim>\<open>tryCompileCode\<close> masks it), and when
  the transformer returns a record for this pair, \<^verbatim>\<open>compile\<close> does what it does with that
  record already in the cache.
\<close>

theorem compile_dialect_pure:
  "compile_dialect h opts fname =
     (if extname h fname = ''.mjs'' then MODULE else SCRIPT,
      if mode opts = ''all'' then MODULE
      else if mode opts = ''js'' then UNAMBIGUOUS
      else if extname h fname = ''.mjs'' then MODULE else SCRIPT) \<and>
   (mode opts = mode opts' \<and> extname h fname = extname h' fname' \<longrightarrow>
      compile_dialect h opts fname = compile_dialect h' opts' fname') \<and>
   (cache_compile (package entry) (cacheName entry) = None \<and>
    Compiler_compile h entry content (compile_dialect h (options (package entry)) fname) =
      Inl e \<longrightarrow>
      compile h caller entry content fname fallback w =
        (Inl (if debug (options (package entry)) \<or> \<not> isError h e \<or> isStackTraceMasked h e
              then e
              else maskStackTrace h (captureStackTrace h (deleteSourceType h e) caller)
                     (Content content) (filename (module entry))
                     (getSourceType h e = Some MODULE)),
         entry, w)) \<and>
   (cache_compile (package entry) (cacheName entry) = None \<and>
    Compiler_compile h entry content (compile_dialect h (options (package entry)) fname) =
      Inr c \<longrightarrow>
      compile h caller entry content fname fallback w =
        compile h caller
          (entry\<lparr>package := (package entry)
             \<lparr>cache_compile := (cache_compile (package entry))(cacheName entry \<mapsto> Compiled c)\<rparr>\<rparr>)
          content fname fallback w)"
proof (intro conjI impI)
  show "compile_dialect h opts fname =
     (if extname h fname = ''.mjs'' then MODULE else SCRIPT,
      if mode opts = ''all'' then MODULE
      else if mode opts = ''js'' then UNAMBIGUOUS
      else if extname h fname = ''.mjs'' then MODULE else SCRIPT)"
    by (simp add: compile_dialect_def Let_def)
next
  assume "mode opts = mode opts' \<and> extname h fname = extname h' fname'"
  then show "compile_dialect h opts fname = compile_dialect h' opts' fname'"
    by (simp add: compile_dialect_def Let_def)
next
  assume a: "cache_compile (package entry) (cacheName entry) = None \<and>
    Compiler_compile h entry content (compile_dialect h (options (package entry)) fname) =
      Inl e"
  then have "compile_cached h caller entry content
               (compile_dialect h (options (package entry)) fname) =
             (Inl (if debug (options (package entry)) \<or> \<not> isError h e \<or> isStackTraceMasked h e
              then e
              else maskStackTrace h (captureStackTrace h (deleteSourceType h e) caller)
                     (Content content) (filename (module entry))
                     (getSourceType h e = Some MODULE)), entry)"
    by (simp add: compile_cached_def tryCompileCode_def Let_def)
  then show "compile h caller entry content fname fallback w =
        (Inl (if debug (options (package entry)) \<or> \<not> isError h e \<or> isStackTraceMasked h e
              then e
              else maskStackTrace h (captureStackTrace h (deleteSourceType h e) caller)
                     (Content content) (filename (module entry))
                     (getSourceType h e = Some MODULE)),
         entry, w)"
    by (simp add: compile_def Let_def)
next
  let ?stored = "entry\<lparr>package := (package entry)
             \<lparr>cache_compile := (cache_compile (package entry))(cacheName entry \<mapsto> Compiled c)\<rparr>\<rparr>"
  let ?pair = "compile_dialect h (options (package entry)) fname"
  assume a: "cache_compile (package entry) (cacheName entry) = None \<and>
    Compiler_compile h entry content (compile_dialect h (options (package entry)) fname) =
      Inr c"
  then have miss: "compile_cached h caller entry content ?pair = (Inr c, ?stored)"
    by (simp add: compile_cached_def tryCompileCode_def Let_def)
  have hit: "compile_cached h caller ?stored content ?pair = (Inr c, ?stored)"
    by (simp add: compile_cached_def Let_def)
  have opts: "options (package ?stored) = options (package entry)"
    by simp
  show "compile h caller entry content fname fallback w =
        compile h caller ?stored content fname fallback w"
    unfolding compile_def opts Let_def miss hit ..
qed

lemma ex_host_sel:
  "extname ex_host = ex_extname"
  "Compiler_compile ex_host = (\<lambda>entry content opts.
         Inr \<lparr>code = content, sourceType = snd opts, changed = True, topLevelReturn = False,
              exportSpecifiers = None, warnings = []\<rparr>)"
  by (simp_all add: ex_host_def)

lemma ex_mode: "mode ex_options = ''auto''"
  by (simp add: ex_options_def)

lemma ex_extname_eval:
  "ex_extname ''/src/a.mjs'' = ''.mjs''" "ex_extname ''/src/a.js'' = ''.js''"
  "ex_extname ''/lib/b.mjs'' = ''.mjs''" "ex_extname ''/src/.mjs'' = []"
  by (simp_all add: ex_extname_def ex_basename_def)

theorem compile_dialect_pure_witness:
  "compile_dialect ex_host ex_options ''/src/a.mjs'' = (MODULE, MODULE) \<and>
   compile_dialect ex_host ex_options ''/src/a.js'' = (SCRIPT, SCRIPT) \<and>
   compile_dialect ex_host ex_options ''/src/.mjs'' = (SCRIPT, SCRIPT) \<and>
   compile_dialect ex_host (ex_options\<lparr>mode := ''all''\<rparr>) ''/src/a.js'' = (SCRIPT, MODULE) \<and>
   compile_dialect ex_host (ex_options\<lparr>mode := ''js''\<rparr>) ''/src/a.mjs'' =
     (MODULE, UNAMBIGUOUS) \<and>
   compile_dialect ex_host (ex_options\<lparr>mode := ''js''\<rparr>) ''/src/a.mjs'' =
     compile_dialect ex_host (ex_options\<lparr>mode := ''js'', debug := True\<rparr>) ''/lib/b.mjs'' \<and>
   compile ex_host 7 (ex_entry ex_options None) ''x=1'' ''/src/a.mjs'' None ex_world =
     compile ex_host 7
       ((ex_entry ex_options None)\<lparr>package := (package (ex_entry ex_options None))
          \<lparr>cache_compile := (cache_compile (package (ex_entry ex_options None)))
             (''a'' \<mapsto> Compiled \<lparr>code = ''x=1'', sourceType = MODULE, changed = True,
                 topLevelReturn = False, exportSpecifiers = None, warnings = []\<rparr>)\<rparr>\<rparr>)
       ''x=1'' ''/src/a.mjs'' None ex_world \<and>
   compile (ex_host_failing (ErrorObject 1 (Some MODULE))) 7 (ex_entry ex_options None) ''x=1''
       ''/src/a.mjs'' None ex_world =
     (Inl (Masked (Captured (ErrorObject 1 None) 7) (Content ''x=1'') ''/src/a.js'' True),
      ex_entry ex_options None, ex_world)"
proof -
  let ?entry = "ex_entry ex_options None"
  let ?failing = "ex_host_failing (ErrorObject 1 (Some MODULE))"
  have pairs:
    "compile_dialect ex_host ex_options ''/src/a.mjs'' = (MODULE, MODULE)"
    "compile_dialect ex_host ex_options ''/src/a.js'' = (SCRIPT, SCRIPT)"
    "compile_dialect ex_host ex_options ''/src/.mjs'' = (SCRIPT, SCRIPT)"
    "compile_dialect ex_host (ex_options\<lparr>mode := ''all''\<rparr>) ''/src/a.js'' = (SCRIPT, MODULE)"
    "compile_dialect ex_host (ex_options\<lparr>mode := ''js''\<rparr>) ''/src/a.mjs'' =
       (MODULE, UNAMBIGUOUS)"
    using compile_dialect_pure [THEN conjunct1, of ex_host ex_options "''/src/a.mjs''"]
      compile_dialect_pure [THEN conjunct1, of ex_host ex_options "''/src/a.js''"]
      compile_dialect_pure [THEN conjunct1, of ex_host ex_options "''/src/.mjs''"]
      compile_dialect_pure [THEN conjunct1, of ex_host "ex_options\<lparr>mode := ''all''\<rparr>"
        "''/src/a.js''"]
      compile_dialect_pure [THEN conjunct1, of ex_host "ex_options\<lparr>mode := ''js''\<rparr>"
        "''/src/a.mjs''"]
    by (simp_all add: ex_host_sel ex_extname_eval ex_mode)
  have same:
    "compile_dialect ex_host (ex_options\<lparr>mode := ''js''\<rparr>) ''/src/a.mjs'' =
     compile_dialect ex_host (ex_options\<lparr>mode := ''js'', debug := True\<rparr>) ''/lib/b.mjs''"
    using compile_dialect_pure [THEN conjunct2, THEN conjunct1,
        of "ex_options\<lparr>mode := ''js''\<rparr>" "ex_options\<lparr>mode := ''js'', debug := True\<rparr>"
           ex_host "''/src/a.mjs''" ex_host "''/lib/b.mjs''"]
    by (simp add: ex_host_sel ex_extname_eval)
  have absent: "cache_compile (package ?entry) (cacheName ?entry) = None"
    and name: "cacheName ?entry = ''a''"
    and opts: "options (package ?entry) = ex_options"
    by (simp_all add: ex_entry_def ex_package_def)
  have "Compiler_compile ex_host ?entry ''x=1''
          (compile_dialect ex_host (options (package ?entry)) ''/src/a.mjs'') =
        Inr \<lparr>code = ''x=1'', sourceType = MODULE, changed = True,
              topLevelReturn = False, exportSpecifiers = None, warnings = []\<rparr>"
    by (simp add: opts pairs ex_host_sel)
  with absent compile_dialect_pure [where h = ex_host and entry = ?entry and content = "''x=1''"
      and fname = "''/src/a.mjs''" and caller = 7 and fallback = None and w = ex_world
      and c = "\<lparr>code = ''x=1'', sourceType = MODULE, changed = True,
              topLevelReturn = False, exportSpecifiers = None, warnings = []\<rparr>"]
  have "compile ex_host 7 ?entry ''x=1'' ''/src/a.mjs'' None ex_world =
     compile ex_host 7
       (?entry\<lparr>package := (package ?entry)
          \<lparr>cache_compile := (cache_compile (package ?entry))
             (cacheName ?entry \<mapsto> Compiled \<lparr>code = ''x=1'', sourceType = MODULE, changed = True,
                 topLevelReturn = False, exportSpecifiers = None, warnings = []\<rparr>)\<rparr>\<rparr>)
       ''x=1'' ''/src/a.mjs'' None ex_world"
    by blast
  then have stored: "compile ex_host 7 ?entry ''x=1'' ''/src/a.mjs'' None ex_world =
     compile ex_host 7
       (?entry\<lparr>package := (package ?entry)
          \<lparr>cache_compile := (cache_compile (package ?entry))
             (''a'' \<mapsto> Compiled \<lparr>code = ''x=1'', sourceType = MODULE, changed = True,
                 topLevelReturn = False, exportSpecifiers = None, warnings = []\<rparr>)\<rparr>\<rparr>)
       ''x=1'' ''/src/a.mjs'' None ex_world"
    unfolding name .
  have "Compiler_compile ?failing ?entry ''x=1''
          (compile_dialect ?failing (options (package ?entry)) ''/src/a.mjs'') =
        Inl (ErrorObject 1 (Some MODULE))"
    by (simp add: ex_host_failing_def)
  with absent compile_dialect_pure [where h = ?failing and entry = ?entry
      and content = "''x=1''" and fname = "''/src/a.mjs''" and caller = 7 and fallback = None
      and w = ex_world and e = "ErrorObject 1 (Some MODULE)"]
  have "compile ?failing 7 ?entry ''x=1'' ''/src/a.mjs'' None ex_world =
        (Inl (if debug (options (package ?entry)) \<or>
                 \<not> isError ?failing (ErrorObject 1 (Some MODULE)) \<or>
                 isStackTraceMasked ?failing (ErrorObject 1 (Some MODULE))
              then ErrorObject 1 (Some MODULE)
              else maskStackTrace ?failing
                     (captureStackTrace ?failing
                        (deleteSourceType ?failing (ErrorObject 1 (Some MODULE))) 7)
                     (Content ''x=1'') (filename (module ?entry))
                     (getSourceType ?failing (ErrorObject 1 (Some MODULE)) = Some MODULE)),
         ?entry, ex_world)"
    by blast
  moreover have
    "(if debug (options (package ?entry)) \<or>
         \<not> isError ?failing (ErrorObject 1 (Some MODULE)) \<or>
         isStackTraceMasked ?failing (ErrorObject 1 (Some MODULE))
      then ErrorObject 1 (Some MODULE)
      else maskStackTrace ?failing
             (captureStackTrace ?failing
                (deleteSourceType ?failing (ErrorObject 1 (Some MODULE))) 7)
             (Content ''x=1'') (filename (module ?entry))
             (getSourceType ?failing (ErrorObject 1 (Some MODULE)) = Some MODULE)) =
     Masked (Captured (ErrorObject 1 None) 7) (Content ''x=1'') ''/src/a.js'' True"
    by (simp add: ex_defs ex_host_failing_def)
  ultimately have thrown: "compile ?failing 7 ?entry ''x=1'' ''/src/a.mjs'' None ex_world =
     (Inl (Masked (Captured (ErrorObject 1 None) 7) (Content ''x=1'') ''/src/a.js'' True),
      ?entry, ex_world)"
    by (simp only:)
  from pairs same stored thrown show ?thesis by simp
qed

subsection \<open>What the compile-and-run primitive is handed\<close>

lemma useAsyncWrapper_handed [simp]: "useAsyncWrapper (handed h) entry = useAsyncWrapper h entry"
  by (simp add: useAsyncWrapper_def handed_def)

lemma maybeSourceMap_handed [simp]: "maybeSourceMap (handed h) entry c = maybeSourceMap h entry c"
  by (simp add: maybeSourceMap_def handed_def Let_def)

lemma handed_sel [simp]:
  "mod_compile (handed h) = (\<lambda>content fname w. (Inr content, w))"
  "Runtime_enable (handed h) = Runtime_enable h"
  "getURLFromFilePath (handed h) = getURLFromFilePath h"
  "typeError (handed h) = typeError h"
  by (simp_all add: handed_def)

lemma maybeSourceMap_shape:
  "maybeSourceMap h entry c = [] \<or>
   (\<exists>u. maybeSourceMap h entry c =
          ''//# sourceMappingURL=data:application/json;charset=utf-8,'' @ u)"
  by (simp add: maybeSourceMap_def Let_def)

text \<open>
  Claim C4. For an entry with a cached compilation, the text that \<^verbatim>\<open>tryCompileESM\<close> hands
  to the primitive is the registration call around a function literal whose body starts
  with the pragma \<^verbatim>\<open>"use strict";\<close>, followed by the cached code; its parameter list is the
  runtime name and \<^verbatim>\<open>global\<close>, followed by \<^verbatim>\<open>exports\<close> and \<^verbatim>\<open>require\<close> exactly when \<^verbatim>\<open>cjs.vars\<close> is
  enabled. The wrapper that \<^verbatim>\<open>tryCompileCJS\<close> builds (it builds one when the compilation is
  marked changed) always has the parameters \<^verbatim>\<open>exports\<close> and \<^verbatim>\<open>require\<close>, and its body is the
  cached code itself, with no pragma put before it. In both, a source-map comment may
  follow.
\<close>

theorem wrapper_shape:
  assumes "cache_compile (package entry) (cacheName entry) = Some (Compiled c)"
  shows "(\<exists>body. fst (tryCompileESM (handed h) entry w) =
                    Inr (body @ maybeSourceMap h entry (Some body)) \<and>
            body =
              (if topLevelReturn c then ''return '' else []) @ ''this.r(('' @
              (if useAsyncWrapper h entry then ''async '' else []) @
              ''function('' @ runtimeName entry @ '',global'' @
              (if cjs_vars (options (package entry)) then '',exports,require'' else []) @
              ''){'' @ [CHR 0x22] @ ''use strict'' @ [CHR 0x22] @ '';'' @
              code c @ ''\<newline>}))'') \<and>
         (changed c \<longrightarrow>
            (\<exists>body. fst (tryCompileCJS (handed h) entry w) =
                      Inr (body @ maybeSourceMap h (Runtime_enable h entry) (Some body)) \<and>
              body =
                (if topLevelReturn c then ''return '' else []) @ ''this.r(('' @
                (if useAsyncWrapper h entry then ''async '' else []) @
                ''function('' @ runtimeName entry @ '',global,exports,require'' @
                ''){'' @ code c @ ''\<newline>}))''))"
  using assms
  by (simp add: tryCompileESM_def tryCompileCJS_def Let_def split: prod.splits)

theorem wrapper_shape_witness:
  "fst (tryCompileESM (handed ex_host) (ex_entry ex_options (Some (Compiled ex_module)))
          ex_world) =
     Inr (''this.r((async function(_r,global){'' @ [CHR 0x22] @ ''use strict'' @ [CHR 0x22] @
          '';x=1'' @ ''\<newline>}))'') \<and>
   fst (tryCompileESM (handed ex_host)
          (ex_entry (ex_options\<lparr>cjs_vars := True\<rparr>) (Some (Compiled ex_module))) ex_world) =
     Inr (''this.r((async function(_r,global,exports,require){'' @ [CHR 0x22] @
          ''use strict'' @ [CHR 0x22] @ '';x=1'' @ ''\<newline>}))'') \<and>
   fst (tryCompileCJS (handed ex_host)
          (ex_entry ex_options (Some (Compiled (ex_script\<lparr>changed := True\<rparr>)))) ex_world) =
     Inr ''return this.r((async function(_r,global,exports,require){return 5\<newline>}))''"
  using wrapper_shape
      [of "ex_entry ex_options (Some (Compiled ex_module))" ex_module ex_host ex_world]
    wrapper_shape
      [of "ex_entry (ex_options\<lparr>cjs_vars := True\<rparr>) (Some (Compiled ex_module))"
          ex_module ex_host ex_world]
    wrapper_shape
      [of "ex_entry ex_options (Some (Compiled (ex_script\<lparr>changed := True\<rparr>)))"
          "ex_script\<lparr>changed := True\<rparr>" ex_host ex_world]
  by (simp add: ex_defs handed_def tryCompileESM_def tryCompileCJS_def useAsyncWrapper_def
        maybeSourceMap_def keys_def Let_def)

text \<open>
  Claim C5, as amended. For an entry whose cached compilation records a top-level
  return, the text handed to the primitive begins with \<^verbatim>\<open>return this.r((\<close> in
  \<^verbatim>\<open>tryCompileESM\<close>, and in \<^verbatim>\<open>tryCompileCJS\<close> when the compilation is marked changed; without a
  top-level return it begins with \<^verbatim>\<open>this.r((\<close> in these cases. An unchanged script is handed
  over as its cached code, with no prefix, whatever \<^verbatim>\<open>topLevelReturn\<close> says.
\<close>

theorem topLevelReturn_prefix:
  assumes "cache_compile (package entry) (cacheName entry) = Some (Compiled c)"
  shows "(\<exists>content. fst (tryCompileESM (handed h) entry w) = Inr content \<and>
            (if topLevelReturn c then prefix ''return this.r(('' content
             else prefix ''this.r(('' content)) \<and>
         (changed c \<longrightarrow>
            (\<exists>content. fst (tryCompileCJS (handed h) entry w) = Inr content \<and>
               (if topLevelReturn c then prefix ''return this.r(('' content
                else prefix ''this.r(('' content))) \<and>
         (\<not> changed c \<longrightarrow>
            fst (tryCompileCJS (handed h) entry w) =
              Inr (code c @ maybeSourceMap h entry (Some (code c))))"
  using assms
  by (simp add: tryCompileESM_def tryCompileCJS_def Let_def split: prod.splits)

theorem topLevelReturn_prefix_witness:
  "prefix ''return this.r((''
     (projr (fst (tryCompileESM (handed ex_host)
        (ex_entry ex_options (Some (Compiled (ex_module\<lparr>topLevelReturn := True\<rparr>)))) ex_world))) \<and>
   prefix ''return this.r((''
     (projr (fst (tryCompileCJS (handed ex_host)
        (ex_entry ex_options (Some (Compiled (ex_script\<lparr>changed := True\<rparr>)))) ex_world))) \<and>
   prefix ''this.r((''
     (projr (fst (tryCompileESM (handed ex_host)
        (ex_entry ex_options (Some (Compiled ex_module))) ex_world))) \<and>
   fst (tryCompileCJS (handed ex_host)
        (ex_entry ex_options (Some (Compiled ex_script))) ex_world) = Inr ''return 5''"
  using topLevelReturn_prefix
      [of "ex_entry ex_options (Some (Compiled (ex_module\<lparr>topLevelReturn := True\<rparr>)))"
          "ex_module\<lparr>topLevelReturn := True\<rparr>" ex_host ex_world]
    topLevelReturn_prefix
      [of "ex_entry ex_options (Some (Compiled (ex_script\<lparr>changed := True\<rparr>)))"
          "ex_script\<lparr>changed := True\<rparr>" ex_host ex_world]
    topLevelReturn_prefix
      [of "ex_entry ex_options (Some (Compiled ex_module))" ex_module ex_host ex_world]
    topLevelReturn_prefix
      [of "ex_entry ex_options (Some (Compiled ex_script))" ex_script ex_host ex_world]
  by (simp add: ex_defs handed_def tryCompileESM_def tryCompileCJS_def useAsyncWrapper_def
        maybeSourceMap_def keys_def Let_def)

text \<open>
  Claim C5 as stated fails for an unchanged script with a top-level return: the
  primitive is handed the cached code \<^verbatim>\<open>return 5\<close>, which does not begin with
  \<^verbatim>\<open>return this.r((\<close>.
\<close>

theorem topLevelReturn_unchanged_script_counterexample:
  "topLevelReturn ex_script \<and>
   fst (tryCompileCJS (handed ex_host) (ex_entry ex_options (Some (Compiled ex_script)))
          ex_world) = Inr ''return 5'' \<and>
   \<not> prefix ''return this.r(('' ''return 5''"
  by (simp add: ex_defs handed_def tryCompileCJS_def useAsyncWrapper_def
        maybeSourceMap_def Let_def)

text \<open>
  Claim C10. For an entry whose cached compilation is not marked changed, \<^verbatim>\<open>tryCompileCJS\<close>
  hands the primitive the cached code followed by what \<^verbatim>\<open>maybeSourceMap\<close> gives for it
  (nothing or a source-map comment): no registration call, no function literal, no
  \<^verbatim>\<open>return\<close> prefix. With any host the entry comes back as it was: \<^verbatim>\<open>Runtime.enable\<close> has not
  been applied to it.
\<close>

theorem unchanged_script_verbatim:
  assumes "cache_compile (package entry) (cacheName entry) = Some (Compiled c)"
      and "\<not> changed c"
  shows "fst (tryCompileCJS (handed h) entry w) =
           Inr (code c @ maybeSourceMap h entry (Some (code c))) \<and>
         (maybeSourceMap h entry (Some (code c)) = [] \<or>
          (\<exists>u. maybeSourceMap h entry (Some (code c)) =
                 ''//# sourceMappingURL=data:application/json;charset=utf-8,'' @ u)) \<and>
         fst (snd (tryCompileCJS h2 entry w2)) = entry"
  using assms maybeSourceMap_shape [of h entry "Some (code c)"]
  by (simp add: tryCompileCJS_def Let_def split: prod.splits)

theorem unchanged_script_verbatim_witness:
  "fst (tryCompileCJS (handed ex_host) (ex_entry ex_options (Some (Compiled ex_script)))
          ex_world) = Inr ''return 5'' \<and>
   fst (snd (tryCompileCJS ex_host (ex_entry ex_options (Some (Compiled ex_script))) ex_world)) =
     ex_entry ex_options (Some (Compiled ex_script)) \<and>
   fst (snd (tryCompileCJS ex_host
               (ex_entry ex_options (Some (Compiled (ex_script\<lparr>changed := True\<rparr>)))) ex_world)) \<noteq>
     ex_entry ex_options (Some (Compiled (ex_script\<lparr>changed := True\<rparr>)))"
  using unchanged_script_verbatim
      [of "ex_entry ex_options (Some (Compiled ex_script))" ex_script ex_host ex_world
          ex_host ex_world]
  by (simp add: ex_defs handed_def tryCompileCJS_def useAsyncWrapper_def
        maybeSourceMap_def ex_run_def moduleWrapAsyncCJS_def Let_def)

subsection \<open>The wrapper override\<close>







subsection \<open>Errors leaving the pipeline\<close>

lemmas ex_eval = ex_defs ex_host_failing_def ex_host_throwing_def tryCompileCached_def
  tryCompileCJS_def tryCompileESM_def useAsyncWrapper_def maybeSourceMap_def Let_def

text \<open>
  Claim C7. Outside debug mode, a value thrown by the transformer (\<^verbatim>\<open>tryCompileCode\<close>), by
  validation (\<^verbatim>\<open>tryValidateESM\<close>) or by the cached execution (\<^verbatim>\<open>tryCompileCached\<close>) leaves the
  function unchanged when it is not a recognised error object or its stack trace is
  already marked as masked; otherwise what leaves is the result of one application of
  \<^verbatim>\<open>maskStackTrace\<close> to it (after \<^verbatim>\<open>captureStackTrace\<close>, and in \<^verbatim>\<open>tryCompileCode\<close> after deleting
  its \<^verbatim>\<open>sourceType\<close>). So a value that is already masked is never masked again.
\<close>

theorem masking_once:
  assumes "\<not> debug (options (package entry))"
  shows "(Compiler_compile h entry content opts = Inl e \<longrightarrow>
            tryCompileCode h caller entry content opts =
              Inl (if \<not> isError h e \<or> isStackTraceMasked h e then e
                   else maskStackTrace h (captureStackTrace h (deleteSourceType h e) caller)
                          (Content content) (filename (module entry))
                          (getSourceType h e = Some MODULE))) \<and>
         (fst (validateESM h entry w) = Inl e \<longrightarrow>
            fst (tryValidateESM h caller entry w) =
              Inl (if \<not> isError h e \<or> isStackTraceMasked h e then e
                   else maskStackTrace h (captureStackTrace h e caller)
                          (ReadSourceCode (filename (module entry)))
                          (filename (module entry)) True)) \<and>
         ((if isESM_slot (cache_compile (package entry) (cacheName entry))
           then tryCompileESM else tryCompileCJS) h entry
            (if requireDepth w = 0 then w\<lparr>stat := Some Map.empty\<rparr> else w) =
            (Inl e, entry1, w2) \<longrightarrow>
            fst (tryCompileCached h entry w) =
              Inl (if \<not> isError h e \<or> isStackTraceMasked h e then e
                   else maskStackTrace h e (ReadSourceCode (filename (module entry1)))
                          (filename (module entry1))
                          (isESM_slot (cache_compile (package entry) (cacheName entry)))))"
proof (intro conjI impI)
  assume "Compiler_compile h entry content opts = Inl e"
  with assms show "tryCompileCode h caller entry content opts =
              Inl (if \<not> isError h e \<or> isStackTraceMasked h e then e
                   else maskStackTrace h (captureStackTrace h (deleteSourceType h e) caller)
                          (Content content) (filename (module entry))
                          (getSourceType h e = Some MODULE))"
    by (simp add: tryCompileCode_def Let_def)
next
  assume "fst (validateESM h entry w) = Inl e"
  with assms show "fst (tryValidateESM h caller entry w) =
              Inl (if \<not> isError h e \<or> isStackTraceMasked h e then e
                   else maskStackTrace h (captureStackTrace h e caller)
                          (ReadSourceCode (filename (module entry)))
                          (filename (module entry)) True)"
    by (cases "validateESM h entry w") (simp add: tryValidateESM_def Let_def)
next
  assume "(if isESM_slot (cache_compile (package entry) (cacheName entry))
           then tryCompileESM else tryCompileCJS) h entry
            (if requireDepth w = 0 then w\<lparr>stat := Some Map.empty\<rparr> else w) =
            (Inl e, entry1, w2)"
  with assms show "fst (tryCompileCached h entry w) =
              Inl (if \<not> isError h e \<or> isStackTraceMasked h e then e
                   else maskStackTrace h e (ReadSourceCode (filename (module entry1)))
                          (filename (module entry1))
                          (isESM_slot (cache_compile (package entry) (cacheName entry))))"
    by (simp add: tryCompileCached_def Let_def)
qed

text \<open>
  With thrown values that record what was applied to them: an error object is masked
  once by each of the three functions; an error that is thrown already masked passes
  \<^verbatim>\<open>tryCompileCached\<close> with its single mask; a thrown primitive passes unchanged.
\<close>

theorem masking_once_witness:
  "tryCompileCode (ex_host_failing (ErrorObject 1 (Some MODULE))) 7 (ex_entry ex_options None)
      ''x'' (SCRIPT, SCRIPT) =
     Inl (Masked (Captured (ErrorObject 1 None) 7) (Content ''x'') ''/src/a.js'' True) \<and>
   fst (tryValidateESM (ex_host_failing (ErrorObject 1 None)) 7
          (ex_entry ex_options (Some (Compiled ex_module))) ex_world) =
     Inl (Masked (Captured (ErrorObject 1 None) 7) (ReadSourceCode ''/src/a.js'')
            ''/src/a.js'' True) \<and>
   fst (tryCompileCached (ex_host_failing (ErrorObject 1 None))
          (ex_entry ex_options (Some (Compiled ex_script))) ex_world) =
     Inl (Masked (ErrorObject 1 None) (ReadSourceCode ''/src/a.js'') ''/src/a.js'' False) \<and>
   fst (tryCompileCached
          (ex_host_failing (Masked (ErrorObject 1 None) (Content ''x'') ''/src/a.js'' True))
          (ex_entry ex_options (Some (Compiled ex_script))) ex_world) =
     Inl (Masked (ErrorObject 1 None) (Content ''x'') ''/src/a.js'' True) \<and>
   count_masks (Masked (ErrorObject 1 None) (Content ''x'') ''/src/a.js'' True) = 1 \<and>
   fst (tryCompileCached (ex_host_failing (ThrownPrimitive 1))
          (ex_entry ex_options (Some (Compiled ex_script))) ex_world) =
     Inl (ThrownPrimitive 1)"
  using masking_once
      [of "ex_entry ex_options None" "ex_host_failing (ErrorObject 1 (Some MODULE))" "''x''"
          "(SCRIPT, SCRIPT)" "ErrorObject 1 (Some MODULE)" 7]
    masking_once
      [of "ex_entry ex_options (Some (Compiled ex_module))"
          "ex_host_failing (ErrorObject 1 None)" "''x''" "(SCRIPT, SCRIPT)" "ErrorObject 1 None"
          7 ex_world]
  by (simp add: ex_eval tryCompileCode_def tryValidateESM_def)

subsection \<open>The statistics slot\<close>

lemma tryCompileCached_unfold:
  assumes "(if isESM_slot (cache_compile (package entry) (cacheName entry))
            then tryCompileESM else tryCompileCJS) h entry
             (if requireDepth w = 0 then w\<lparr>stat := Some Map.empty\<rparr> else w) = (r, entry1, w2)"
  shows "tryCompileCached h entry w =
           (case r of
              Inr result \<Rightarrow>
                (Inr result, entry1, if requireDepth w = 0 then w2\<lparr>stat := None\<rparr> else w2)
            | Inl e \<Rightarrow>
                if debug (options (package entry)) then (Inl e, entry1, w2)
                else (Inl (if \<not> isError h e \<or> isStackTraceMasked h e then e
                           else maskStackTrace h e (ReadSourceCode (filename (module entry1)))
                                  (filename (module entry1))
                                  (isESM_slot (cache_compile (package entry) (cacheName entry)))),
                      entry1, if requireDepth w = 0 then w2\<lparr>stat := None\<rparr> else w2))"
  using assms by (cases r) (simp_all add: tryCompileCached_def Let_def)

text \<open>
  What \<^verbatim>\<open>tryCompileCached\<close> does to \<^verbatim>\<open>moduleState.stat\<close> in every case but a throw in debug
  mode. At require depth zero it runs the inner compile with the slot set to a fresh
  empty object, and the slot is \<^verbatim>\<open>null\<close> when the call completes: outside debug mode
  whether the inner compile returns or throws, and in debug mode when it returns. At a
  nonzero depth it writes nothing to the process-wide state: the inner compile starts in
  the state of the call, and the state after the call is the one the inner compile
  leaves.
\<close>

theorem stat_slot:
  "(requireDepth w = 0 \<and> \<not> debug (options (package entry)) \<longrightarrow>
      stat (snd (snd (tryCompileCached h entry w))) = None) \<and>
   (requireDepth w = 0 \<and> debug (options (package entry)) \<and>
    fst (tryCompileCached h entry w) = Inr v \<longrightarrow>
      stat (snd (snd (tryCompileCached h entry w))) = None) \<and>
   (requireDepth w = 0 \<longrightarrow>
      (\<exists>s. snd (snd (tryCompileCached h entry w)) =
            (snd (snd ((if isESM_slot (cache_compile (package entry) (cacheName entry))
                        then tryCompileESM else tryCompileCJS) h entry
                         (w\<lparr>stat := Some Map.empty\<rparr>))))\<lparr>stat := s\<rparr>)) \<and>
   (requireDepth w \<noteq> 0 \<longrightarrow>
      snd (snd (tryCompileCached h entry w)) =
        snd (snd ((if isESM_slot (cache_compile (package entry) (cacheName entry))
                   then tryCompileESM else tryCompileCJS) h entry w)))"
proof -
  obtain r entry1 w2 where
    inner: "(if isESM_slot (cache_compile (package entry) (cacheName entry))
             then tryCompileESM else tryCompileCJS) h entry
              (if requireDepth w = 0 then w\<lparr>stat := Some Map.empty\<rparr> else w) = (r, entry1, w2)"
    by (rule prod_cases3)
  note outer = tryCompileCached_unfold [OF inner]
  have a: "stat (snd (snd (tryCompileCached h entry w))) = None"
    if "requireDepth w = 0" "\<not> debug (options (package entry))"
    using that by (cases r) (simp_all add: outer)
  have b: "stat (snd (snd (tryCompileCached h entry w))) = None"
    if "requireDepth w = 0" "fst (tryCompileCached h entry w) = Inr v"
    using that by (cases r) (simp_all add: outer split: if_splits)
  have c: "\<exists>s. snd (snd (tryCompileCached h entry w)) =
            (snd (snd ((if isESM_slot (cache_compile (package entry) (cacheName entry))
                        then tryCompileESM else tryCompileCJS) h entry
                         (w\<lparr>stat := Some Map.empty\<rparr>))))\<lparr>stat := s\<rparr>"
    if d0: "requireDepth w = 0"
  proof -
    from inner d0 have w2: "snd (snd ((if isESM_slot (cache_compile (package entry) (cacheName entry))
                        then tryCompileESM else tryCompileCJS) h entry
                         (w\<lparr>stat := Some Map.empty\<rparr>))) = w2"
      by simp
    have "snd (snd (tryCompileCached h entry w)) = w2\<lparr>stat := None\<rparr> \<or>
          snd (snd (tryCompileCached h entry w)) = w2\<lparr>stat := stat w2\<rparr>"
      using d0 by (cases r) (simp_all add: outer)
    then show ?thesis unfolding w2 by blast
  qed
  have d: "snd (snd (tryCompileCached h entry w)) =
        snd (snd ((if isESM_slot (cache_compile (package entry) (cacheName entry))
                   then tryCompileESM else tryCompileCJS) h entry w))"
    if dn: "requireDepth w \<noteq> 0"
  proof -
    from inner dn have "snd (snd ((if isESM_slot (cache_compile (package entry) (cacheName entry))
                   then tryCompileESM else tryCompileCJS) h entry w)) = w2"
      by simp
    moreover have "snd (snd (tryCompileCached h entry w)) = w2"
      using dn by (cases r) (simp_all add: outer)
    ultimately show ?thesis by simp
  qed
  from a b c d show ?thesis by blast
qed

theorem stat_slot_witness:
  "stat (snd (snd (tryCompileCached ex_host
                     (ex_entry ex_options (Some (Compiled ex_script)))
                     (ex_world\<lparr>stat := Some [''f'' \<mapsto> 1]\<rparr>)))) = None \<and>
   stat (snd (snd (tryCompileCached ex_host_throwing
                     (ex_entry ex_options (Some (Compiled ex_script))) ex_world))) = None \<and>
   stat (snd (snd (tryCompileCached ex_host
                     (ex_entry (ex_options\<lparr>debug := True\<rparr>) (Some (Compiled ex_module)))
                     ex_world))) = None \<and>
   stat (snd (snd (tryCompileCached ex_host_throwing
                     (ex_entry ex_options (Some (Compiled ex_script)))
                     (ex_world\<lparr>requireDepth := 2, stat := Some [''f'' \<mapsto> 1]\<rparr>)))) =
     Some [''f'' \<mapsto> 1]"
  using stat_slot
      [of "ex_world\<lparr>stat := Some [''f'' \<mapsto> 1]\<rparr>"
          "ex_entry ex_options (Some (Compiled ex_script))" ex_host]
    stat_slot
      [of ex_world "ex_entry ex_options (Some (Compiled ex_script))" ex_host_throwing]
    stat_slot
      [of ex_world "ex_entry (ex_options\<lparr>debug := True\<rparr>) (Some (Compiled ex_module))" ex_host]
    stat_slot
      [of "ex_world\<lparr>requireDepth := 2, stat := Some [''f'' \<mapsto> 1]\<rparr>"
          "ex_entry ex_options (Some (Compiled ex_script))" ex_host_throwing]
  by (simp add: ex_eval ex_run_def moduleWrapAsyncCJS_def moduleWrapESM_def keys_def)

text \<open>
  Claim C8. The statistics slot \<^verbatim>\<open>moduleState.stat\<close> is installed only by a call of
  \<^verbatim>\<open>tryCompileCached\<close> at require depth zero, and every such call leaves it \<^verbatim>\<open>null\<close> when it
  completes, whether the inner compile returns or throws, in debug mode and outside it.
  The code does not do this in debug mode when the inner compile throws: the debug
  branch resets the slot after the call (lines 135-137) with no \<^verbatim>\<open>finally\<close>, as the other
  branch has (lines 151-155), so the throw leaves \<^verbatim>\<open>tryCompileCached\<close> before the reset and
  the slot stays the object installed for the call. This is the code at that input:
  debug mode, depth zero, a primitive that throws.
\<close>

theorem stat_slot_debug_throw:
  "requireDepth ex_world = 0 \<and> debug ex_options_debug \<and>
   fst (tryCompileCached ex_host_throwing
          (ex_entry ex_options_debug (Some (Compiled ex_script))) ex_world) =
     Inl (ErrorObject 1 None) \<and>
   stat (snd (snd (tryCompileCached ex_host_throwing
                     (ex_entry ex_options_debug (Some (Compiled ex_script))) ex_world))) \<noteq>
     None"
  by (simp add: ex_eval ex_options_debug_def)

text \<open>
  The same call outside debug mode leaves the slot \<^verbatim>\<open>null\<close>: the two modes differ at this
  input.
\<close>

theorem stat_slot_debug_throw_witness:
  "stat (snd (snd (tryCompileCached ex_host_throwing
                     (ex_entry ex_options (Some (Compiled ex_script))) ex_world))) = None \<and>
   stat (snd (snd (tryCompileCached ex_host_throwing
                     (ex_entry ex_options_debug (Some (Compiled ex_script))) ex_world))) \<noteq>
   stat (snd (snd (tryCompileCached ex_host_throwing
                     (ex_entry ex_options (Some (Compiled ex_script))) ex_world)))"
proof -
  have "stat (snd (snd (tryCompileCached ex_host_throwing
                     (ex_entry ex_options (Some (Compiled ex_script))) ex_world))) = None"
    by (simp add: ex_eval)
  with stat_slot_debug_throw show ?thesis by simp
qed

subsection \<open>The dialect selects the builder\<close>

text \<open>
  \<^verbatim>\<open>tryCompileCached\<close> hands the primitive what \<^verbatim>\<open>tryCompileESM\<close> builds when the cached
  compilation is of the import/export dialect, and what \<^verbatim>\<open>tryCompileCJS\<close> builds otherwise:
  the strict-mode pragma goes with the dialect.
\<close>

lemma handed_any_world:
  "fst (tryCompileESM (handed h) entry w) = fst (tryCompileESM (handed h) entry w2)"
  "fst (tryCompileCJS (handed h) entry w) = fst (tryCompileCJS (handed h) entry w2)"
  by (simp_all add: tryCompileESM_def tryCompileCJS_def Let_def case_prod_beta
        split: option.splits)

lemma tryCompileCached_dispatch:
  assumes "cache_compile (package entry) (cacheName entry) = Some s"
  shows "fst (tryCompileCached (handed h) entry w) =
           (if isESM_slot (Some s) then fst (tryCompileESM (handed h) entry w)
            else fst (tryCompileCJS (handed h) entry w))"
proof -
  let ?w1 = "if requireDepth w = 0 then w\<lparr>stat := Some Map.empty\<rparr> else w"
  obtain r e1 w2 where inner:
    "(if isESM_slot (cache_compile (package entry) (cacheName entry))
      then tryCompileESM else tryCompileCJS) (handed h) entry ?w1 = (r, e1, w2)"
    by (rule prod_cases3)
  have "\<exists>c. r = Inr c"
    using inner assms
    by (auto simp add: tryCompileESM_def tryCompileCJS_def Let_def case_prod_beta
          split: if_splits)
  then obtain c where r: "r = Inr c" by blast
  from tryCompileCached_unfold [OF inner] r
  have "fst (tryCompileCached (handed h) entry w) = Inr c" by simp
  moreover from inner r have
    "(if isESM_slot (cache_compile (package entry) (cacheName entry))
      then fst (tryCompileESM (handed h) entry ?w1)
      else fst (tryCompileCJS (handed h) entry ?w1)) = Inr c"
    by (auto split: if_splits)
  ultimately show ?thesis
    using handed_any_world [of h entry ?w1 w] assms by (auto split: if_splits)
qed

subsection \<open>The pending-disk sentinel\<close>



section \<open>Properties of the identity mask\<close>

subsection \<open>Steps and the memo table\<close>

lemma frames_returnM: "frames (returnM x)"
  by (simp add: frames_def returnM_def)

lemma frames_read: "frames (\<lambda>s. (Inr (g s), s))"
  by (simp add: frames_def)

lemma frames_on_heap: "frames (on_heap step)"
  by (auto simp add: frames_def on_heap_def split: prod.splits)

lemma frames_OwnProxy_new: "frames (OwnProxy_new js target hdl)"
  by (auto simp add: frames_def OwnProxy_new_def split: val.splits)

lemma frames_bindM:
  assumes "frames m" and "\<And>x. frames (f x)"
  shows "frames (bindM m f)"
  unfolding frames_def
proof (intro allI impI)
  fix s r s1
  assume b: "bindM m f s = (r, s1)"
  obtain r0 s0 where m: "m s = (r0, s0)" by (cases "m s")
  with assms(1) have f0: "cache s0 = cache s" "next_ref s \<le> next_ref s0"
    by (auto simp add: frames_def)
  show "cache s1 = cache s \<and> next_ref s \<le> next_ref s1"
  proof (cases r0)
    case (Inl e)
    with b m f0 show ?thesis by (simp add: bindM_def)
  next
    case (Inr x)
    with b m have "f x s0 = (r, s1)" by (simp add: bindM_def)
    with assms(2) [of x] have "cache s1 = cache s0" "next_ref s0 \<le> next_ref s1"
      by (auto simp add: frames_def)
    with f0 show ?thesis by simp
  qed
qed

lemma frames_if: "frames m \<Longrightarrow> frames n \<Longrightarrow> frames (if b then m else n)"
  by simp

lemma records_bindM:
  assumes "frames m" and "\<And>x. records func prox (f x)"
  shows "records func prox (bindM m f)"
  unfolding records_def
proof (intro allI impI)
  fix s r s1
  assume b: "bindM m f s = (r, s1)"
  obtain r0 s0 where m: "m s = (r0, s0)" by (cases "m s")
  with assms(1) have f0: "cache s0 = cache s" "next_ref s \<le> next_ref s0"
    by (auto simp add: frames_def)
  show "next_ref s \<le> next_ref s1 \<and>
        ((\<exists>e. r = Inl e) \<and> cache s1 = cache s \<or>
         r = Inr prox \<and>
         (\<exists>rec. proxy rec = prox \<and> cache s1 = (cache s)(func \<mapsto> rec, prox \<mapsto> rec)))"
  proof (cases r0)
    case (Inl e)
    with b m f0 show ?thesis by (auto simp add: bindM_def)
  next
    case (Inr x)
    with b m have "f x s0 = (r, s1)" by (simp add: bindM_def)
    with assms(2) [of x] have "next_ref s0 \<le> next_ref s1 \<and>
        ((\<exists>e. r = Inl e) \<and> cache s1 = cache s0 \<or>
         r = Inr prox \<and>
         (\<exists>rec. proxy rec = prox \<and> cache s1 = (cache s0)(func \<mapsto> rec, prox \<mapsto> rec)))"
      unfolding records_def by blast
    with f0 show ?thesis by auto
  qed
qed

lemma records_final:
  "records func prox
     (\<lambda>s. (let cached = \<lparr>proxy = prox, source = src, toString = toStr\<rparr>
           in (Inr prox, s\<lparr>cache := (cache s)(func \<mapsto> cached, prox \<mapsto> cached)\<rparr>)))"
  unfolding records_def Let_def
  by (intro allI impI conjI) (auto intro: exI [of _ "\<lparr>proxy = prox, source = src, toString = toStr\<rparr>"])


lemma frames_case_option:
  "frames n \<Longrightarrow> (\<And>d. frames (m d)) \<Longrightarrow> frames (case x of None \<Rightarrow> n | Some d \<Rightarrow> m d)"
  by (cases x) simp_all

lemma recordsD:
  "m s = (r, s1) \<Longrightarrow> records func prox m \<Longrightarrow>
   next_ref s \<le> next_ref s1 \<and>
        ((\<exists>e. r = Inl e) \<and> cache s1 = cache s \<or>
         r = Inr prox \<and>
         (\<exists>rec. proxy rec = prox \<and> cache s1 = (cache s)(func \<mapsto> rec, prox \<mapsto> rec)))"
  unfolding records_def by blast

lemma bindM_cases:
  "bindM m f s = (r, s1) \<Longrightarrow>
   (\<exists>e. m s = (Inl e, s1) \<and> r = Inl e) \<or> (\<exists>x s0. m s = (Inr x, s0) \<and> f x s0 = (r, s1))"
  by (cases "m s") (auto simp add: bindM_def split: sum.splits)

lemma OwnProxy_new_Inr:
  "OwnProxy_new js target hdl st = (Inr x, s0) \<Longrightarrow>
   is_object target \<and> (x = JSFunction (next_ref st) \<or> x = JSObject (next_ref st)) \<and>
   cache s0 = cache st \<and> next_ref s0 = Suc (next_ref st)"
  by (auto simp add: OwnProxy_new_def split: val.splits)

lemma OwnProxy_new_Inl:
  "OwnProxy_new js target hdl st = (Inl e, s0) \<Longrightarrow> s0 = st"
  by (auto simp add: OwnProxy_new_def split: val.splits)

lemma bindM_records:
  assumes "bindM m f s = (r, s1)" and "\<And>x. records func x (f x)"
  shows "(\<exists>e. m s = (Inl e, s1) \<and> r = Inl e) \<or>
         (\<exists>x s0. m s = (Inr x, s0) \<and> next_ref s0 \<le> next_ref s1 \<and>
            ((\<exists>e. r = Inl e) \<and> cache s1 = cache s0 \<or>
             r = Inr x \<and>
             (\<exists>rec. proxy rec = x \<and> cache s1 = (cache s0)(func \<mapsto> rec, x \<mapsto> rec))))"
proof -
  from bindM_cases [OF assms(1)] show ?thesis
  proof
    assume "\<exists>e. m s = (Inl e, s1) \<and> r = Inl e"
    then show ?thesis by blast
  next
    assume "\<exists>x s0. m s = (Inr x, s0) \<and> f x s0 = (r, s1)"
    then obtain x s0 where m: "m s = (Inr x, s0)" and f: "f x s0 = (r, s1)" by blast
    from recordsD [OF f assms(2)] m show ?thesis by blast
  qed
qed

lemma maskFunction_miss:
  assumes run: "maskFunction js func src st = (r, s1)"
      and src: "is_function src" and miss: "cache st func = None"
  shows "next_ref st \<le> next_ref s1 \<and>
         ((\<exists>e. r = Inl e) \<and> cache s1 = cache st \<or>
          (\<exists>prox rec. r = Inr prox \<and> is_object func \<and> next_ref st < next_ref s1 \<and>
             (prox = JSFunction (next_ref st) \<or> prox = JSObject (next_ref st)) \<and>
             proxy rec = prox \<and> cache s1 = (cache st)(func \<mapsto> rec, prox \<mapsto> rec)))"
proof -
  from run src miss have
    "(\<exists>e. OwnProxy_new js func (GetHandler func) st = (Inl e, s1) \<and> r = Inl e) \<or>
     (\<exists>prox s0. OwnProxy_new js func (GetHandler func) st = (Inr prox, s0) \<and>
        next_ref s0 \<le> next_ref s1 \<and>
        ((\<exists>e. r = Inl e) \<and> cache s1 = cache s0 \<or>
         r = Inr prox \<and>
         (\<exists>rec. proxy rec = prox \<and> cache s1 = (cache s0)(func \<mapsto> rec, prox \<mapsto> rec))))"
    apply (simp add: maskFunction_def)
    apply (erule bindM_records)
    apply (intro records_bindM frames_bindM frames_if frames_case_option frames_on_heap
             frames_OwnProxy_new frames_read frames_returnM records_final)
    done
  then show ?thesis
  proof
    assume "\<exists>e. OwnProxy_new js func (GetHandler func) st = (Inl e, s1) \<and> r = Inl e"
    then show ?thesis by (auto dest: OwnProxy_new_Inl)
  next
    assume "\<exists>prox s0. OwnProxy_new js func (GetHandler func) st = (Inr prox, s0) \<and>
        next_ref s0 \<le> next_ref s1 \<and>
        ((\<exists>e. r = Inl e) \<and> cache s1 = cache s0 \<or>
         r = Inr prox \<and>
         (\<exists>rec. proxy rec = prox \<and> cache s1 = (cache s0)(func \<mapsto> rec, prox \<mapsto> rec)))"
    then obtain prox s0 where
      new: "OwnProxy_new js func (GetHandler func) st = (Inr prox, s0)" and
      mono: "next_ref s0 \<le> next_ref s1" and
      rest: "(\<exists>e. r = Inl e) \<and> cache s1 = cache s0 \<or>
         r = Inr prox \<and>
         (\<exists>rec. proxy rec = prox \<and> cache s1 = (cache s0)(func \<mapsto> rec, prox \<mapsto> rec))"
      by blast
    from OwnProxy_new_Inr [OF new] mono rest show ?thesis by auto
  qed
qed

lemma allocated_mono: "allocated st v \<Longrightarrow> next_ref st \<le> next_ref s1 \<Longrightarrow> allocated s1 v"
  by (cases v) simp_all

lemma maskFunction_no_source:
  "\<not> is_function src \<Longrightarrow> maskFunction js func src st = (Inr func, st)"
  by (simp add: maskFunction_def)

lemma maskFunction_hit:
  "is_function src \<Longrightarrow> cache st func = Some rec \<Longrightarrow>
   maskFunction js func src st = (Inr (proxy rec), st)"
  by (simp add: maskFunction_def)

lemma maskFunction_step:
  assumes inv: "mask_inv st" and alloc: "allocated st func"
      and run: "maskFunction js func src st = (r, s1)"
  shows "mask_inv s1 \<and> (\<forall>k rec. cache st k = Some rec \<longrightarrow> cache s1 k = Some rec) \<and>
         next_ref st \<le> next_ref s1"
proof (cases "is_function src")
  case False
  with run inv show ?thesis by (simp add: maskFunction_no_source)
next
  case src: True
  show ?thesis
  proof (cases "cache st func")
    case (Some rec)
    with run inv src show ?thesis by (simp add: maskFunction_hit)
  next
    case None
    from maskFunction_miss [OF run src None]
    have mono: "next_ref st \<le> next_ref s1"
      and eff: "(\<exists>e. r = Inl e) \<and> cache s1 = cache st \<or>
          (\<exists>prox rec. r = Inr prox \<and> is_object func \<and> next_ref st < next_ref s1 \<and>
             (prox = JSFunction (next_ref st) \<or> prox = JSObject (next_ref st)) \<and>
             proxy rec = prox \<and> cache s1 = (cache st)(func \<mapsto> rec, prox \<mapsto> rec))"
      by blast+
    from eff show ?thesis
    proof
      assume "(\<exists>e. r = Inl e) \<and> cache s1 = cache st"
      then have same: "cache s1 = cache st" by simp
      have "mask_inv s1"
        unfolding mask_inv_def same
        using inv mono by (auto simp add: mask_inv_def intro: allocated_mono)
      with same mono show ?thesis by simp
    next
      assume "\<exists>prox rec. r = Inr prox \<and> is_object func \<and> next_ref st < next_ref s1 \<and>
             (prox = JSFunction (next_ref st) \<or> prox = JSObject (next_ref st)) \<and>
             proxy rec = prox \<and> cache s1 = (cache st)(func \<mapsto> rec, prox \<mapsto> rec)"
      then obtain prox rec where
        obj: "is_object func" and
        lt: "next_ref st < next_ref s1" and
        fresh: "prox = JSFunction (next_ref st) \<or> prox = JSObject (next_ref st)" and
        rec: "proxy rec = prox" and
        upd: "cache s1 = (cache st)(func \<mapsto> rec, prox \<mapsto> rec)"
        by blast
      have notkey: "cache st prox = None"
      proof (rule ccontr)
        assume "cache st prox \<noteq> None"
        then obtain r0 where "cache st prox = Some r0" by blast
        with inv have "allocated st prox" by (simp add: mask_inv_def)
        with fresh show False by auto
      qed
      have keep: "cache s1 k = Some r0" if "cache st k = Some r0" for k r0
        using that None notkey upd by auto
      have "is_object k \<and> allocated s1 k \<and> cache s1 (proxy r0) = Some r0"
        if k: "cache s1 k = Some r0" for k r0
      proof (cases "k = func \<or> k = prox")
        case True
        with k upd have r0: "r0 = rec" by (auto split: if_splits)
        from fresh lt have "is_object prox" "allocated s1 prox" by auto
        moreover from alloc mono have "allocated s1 func" by (rule allocated_mono)
        moreover from upd rec have "cache s1 (proxy rec) = Some rec" by simp
        ultimately show ?thesis using True obj r0 by auto
      next
        case False
        with k upd have old: "cache st k = Some r0" by simp
        with inv have "is_object k" "allocated st k" "cache st (proxy r0) = Some r0"
          by (simp_all add: mask_inv_def)
        with mono keep show ?thesis by (auto intro: allocated_mono)
      qed
      then have "mask_inv s1" by (simp add: mask_inv_def)
      with keep mono show ?thesis by blast
    qed
  qed
qed

lemma other_inv:
  assumes "mask_inv st1" and "next_ref st1 \<le> n"
  shows "mask_inv (st1\<lparr>next_ref := n, proxies := ps, heap := h\<rparr>)"
proof -
  have "allocated (st1\<lparr>next_ref := n, proxies := ps, heap := h\<rparr>) v" if "allocated st1 v" for v
    using that assms(2) by (cases v) simp_all
  with assms(1) show ?thesis by (simp add: mask_inv_def)
qed

lemma later_inv:
  assumes "later js st st2" and "mask_inv st"
  shows "mask_inv st2 \<and> (\<forall>k rec. cache st k = Some rec \<longrightarrow> cache st2 k = Some rec) \<and>
         next_ref st \<le> next_ref st2"
  using assms
proof (induction rule: later.induct)
  case later_now
  then show ?case by simp
next
  case (later_call st1 func src)
  then have ih: "mask_inv st1" "\<forall>k rec. cache st k = Some rec \<longrightarrow> cache st1 k = Some rec"
    "next_ref st \<le> next_ref st1"
    by simp_all
  obtain r s1 where run: "maskFunction js func src st1 = (r, s1)"
    by (cases "maskFunction js func src st1")
  from maskFunction_step [OF ih(1) later_call.hyps(2) run] ih run
  show ?case by auto
next
  case later_other
  then show ?case by (simp add: other_inv)
qed

lemma reachable_inv: "reachable js st \<Longrightarrow> mask_inv st"
proof -
  assume "reachable js st"
  then obtain st0 where e: "cache st0 = Map.empty" and l: "later js st0 st"
    by (auto simp add: reachable_def)
  from e have "mask_inv st0" by (simp add: mask_inv_def)
  with later_inv [OF l] show ?thesis by simp
qed


subsection \<open>Memoisation\<close>

text \<open>
  Claim C9. \<^verbatim>\<open>maskFunction(func, source)\<close> returns \<^verbatim>\<open>func\<close> itself and changes nothing when
  \<^verbatim>\<open>source\<close> is not callable. When \<^verbatim>\<open>source\<close> is callable and the call returns a proxy, then
  in every later state the memo table holds one record, whose \<^verbatim>\<open>proxy\<close> is that proxy,
  under \<^verbatim>\<open>func\<close> and under the proxy, and every later call with \<^verbatim>\<open>func\<close> or with the proxy
  and a callable source returns that same proxy and changes nothing. (The states are
  those of a process that began with an empty memo table; \<^verbatim>\<open>func\<close> is an existing object.)
\<close>

theorem maskFunction_memo:
  "(\<not> is_function src \<longrightarrow> maskFunction js func src st = (Inr func, st)) \<and>
   (reachable js st \<and> allocated st func \<and> is_function src \<and>
    maskFunction js func src st = (Inr p, st1) \<and> later js st1 st2 \<and> is_function src2 \<longrightarrow>
      (\<exists>rec. cache st2 func = Some rec \<and> cache st2 p = Some rec \<and> proxy rec = p) \<and>
      maskFunction js func src2 st2 = (Inr p, st2) \<and>
      maskFunction js p src2 st2 = (Inr p, st2))"
proof (intro conjI impI)
  assume "\<not> is_function src"
  then show "maskFunction js func src st = (Inr func, st)" by (rule maskFunction_no_source)
next
  assume a: "reachable js st \<and> allocated st func \<and> is_function src \<and>
    maskFunction js func src st = (Inr p, st1) \<and> later js st1 st2 \<and> is_function src2"
  then have "reachable js st" by simp
  then have inv: "mask_inv st" by (rule reachable_inv)
  from a have alloc: "allocated st func" and src: "is_function src"
    and run: "maskFunction js func src st = (Inr p, st1)" and l: "later js st1 st2"
    and src2: "is_function src2"
    by simp_all
  from maskFunction_step [OF inv alloc run] have inv1: "mask_inv st1" by simp
  have "\<exists>rec. cache st1 func = Some rec \<and> cache st1 p = Some rec \<and> proxy rec = p"
  proof (cases "cache st func")
    case (Some rec)
    with run src have "p = proxy rec" "st1 = st" by (simp_all add: maskFunction_hit)
    with Some inv show ?thesis by (auto simp add: mask_inv_def)
  next
    case None
    from maskFunction_miss [OF run src None] show ?thesis by auto
  qed
  then obtain rec where rec: "cache st1 func = Some rec" "cache st1 p = Some rec" "proxy rec = p"
    by blast
  with later_inv [OF l inv1] have rec2: "cache st2 func = Some rec" "cache st2 p = Some rec"
    by simp_all
  with rec(3) show "\<exists>rec. cache st2 func = Some rec \<and> cache st2 p = Some rec \<and> proxy rec = p"
    by blast
  from rec2 rec(3) src2 show "maskFunction js func src2 st2 = (Inr p, st2)"
    by (simp add: maskFunction_hit)
  from rec2 rec(3) src2 show "maskFunction js p src2 st2 = (Inr p, st2)"
    by (simp add: maskFunction_hit)
qed

lemmas mask_eval = maskFunction_def bindM_def returnM_def on_heap_def OwnProxy_new_def
  ex_js_def ex_mask_state_def Let_def

lemma ex_first_call:
  "maskFunction ex_js (JSFunction 2) (JSFunction 3) ex_mask_state = (Inr (JSFunction 4), ex_state1)"
  by (simp add: prod_eq_iff ex_state1_def) (simp add: mask_eval)

lemma ex_state1_next: "next_ref ex_state1 = 6"
  by (simp add: ex_state1_def mask_eval)

lemma ex_later: "later ex_js ex_state1 ex_state2"
  unfolding ex_state2_def
  by (rule later_call [OF later_now]) (simp add: ex_state1_next)

lemma ex_reachable: "reachable ex_js ex_mask_state"
  unfolding reachable_def
  by (rule exI [of _ ex_mask_state]) (simp add: later_now, simp add: ex_mask_state_def)


text \<open>
  Masking function 2 gives the new function 4; after function 3 has been masked as
  well (giving 6), masking function 2 again, or masking the proxy 4, gives 4, and both
  keys hold the same record.
\<close>

theorem maskFunction_memo_witness:
  "maskFunction ex_js (JSFunction 2) (JSPrimitive 0) ex_mask_state =
     (Inr (JSFunction 2), ex_mask_state) \<and>
   fst (maskFunction ex_js (JSFunction 2) (JSFunction 3) ex_mask_state) = Inr (JSFunction 4) \<and>
   fst (maskFunction ex_js (JSFunction 3) (JSFunction 2) ex_state1) = Inr (JSFunction 6) \<and>
   maskFunction ex_js (JSFunction 2) (JSFunction 1) ex_state2 = (Inr (JSFunction 4), ex_state2) \<and>
   maskFunction ex_js (JSFunction 4) (JSFunction 1) ex_state2 = (Inr (JSFunction 4), ex_state2) \<and>
   cache ex_state2 (JSFunction 2) = cache ex_state2 (JSFunction 4) \<and>
   cache ex_state2 (JSFunction 2) \<noteq> None"
proof -
  have no_source:
    "maskFunction ex_js (JSFunction 2) (JSPrimitive 0) ex_mask_state =
       (Inr (JSFunction 2), ex_mask_state)"
    using maskFunction_memo
      [where src = "JSPrimitive 0" and js = ex_js and func = "JSFunction 2"
         and st = ex_mask_state]
    by simp
  have hyps:
    "reachable ex_js ex_mask_state \<and> allocated ex_mask_state (JSFunction 2) \<and>
     is_function (JSFunction 3) \<and>
     maskFunction ex_js (JSFunction 2) (JSFunction 3) ex_mask_state =
       (Inr (JSFunction 4), ex_state1) \<and>
     later ex_js ex_state1 ex_state2 \<and> is_function (JSFunction 1)"
    using ex_first_call ex_later ex_reachable by (simp add: ex_mask_state_def)
  have memo:
    "(\<exists>rec. cache ex_state2 (JSFunction 2) = Some rec \<and>
            cache ex_state2 (JSFunction 4) = Some rec \<and> proxy rec = JSFunction 4) \<and>
     maskFunction ex_js (JSFunction 2) (JSFunction 1) ex_state2 =
       (Inr (JSFunction 4), ex_state2) \<and>
     maskFunction ex_js (JSFunction 4) (JSFunction 1) ex_state2 =
       (Inr (JSFunction 4), ex_state2)"
    using maskFunction_memo
      [where src = "JSFunction 3" and js = ex_js and func = "JSFunction 2"
         and st = ex_mask_state and p = "JSFunction 4" and ?st1.0 = ex_state1
         and ?st2.0 = ex_state2 and ?src2.0 = "JSFunction 1"]
      hyps
    by blast
  have other: "fst (maskFunction ex_js (JSFunction 3) (JSFunction 2) ex_state1) =
                 Inr (JSFunction 6)"
    by (simp add: ex_state1_def mask_eval)
  from no_source memo other ex_first_call show ?thesis by auto
qed

end
